theory Spec2Isabelle
  imports Complex_Main "HOL-Library.Sublist"
begin

section \<open>Data model (src/types/index.ts)\<close>

text \<open>
  JavaScript strings are modelled as \<open>string\<close> (lists of 8-bit code units), an optional
  field \<open>f?: T\<close> as \<open>T option\<close> with \<open>None\<close> for \<open>undefined\<close>.  Record fields carry a
  prefix because the source's field names (\<open>id\<close>, \<open>type\<close>, \<open>value\<close>, \<open>x\<close>, ...) clash with
  HOL names.
\<close>

text \<open>
  A JavaScript number, by its value: a finite number (\<open>Finite 0\<close> is the positive zero),
  the negative zero, an infinity, or \<open>NaN\<close>.  A literal of the source is the \<open>Finite\<close> value
  it denotes.  How \<open>+\<close>, \<open>/\<close> and \<open>*\<close> compute and round is not fixed by the model: the
  arithmetic of the runtime is a parameter \<open>js_arith\<close> of every function that calculates,
  so that what is proved holds for binary64 arithmetic as for any other.
\<close>

datatype js_number = Finite real | NegZero | PosInfinity | NegInfinity | NaN

record js_arith =
  js_add :: "js_number \<Rightarrow> js_number \<Rightarrow> js_number"
  js_div :: "js_number \<Rightarrow> js_number \<Rightarrow> js_number"
  js_mul :: "js_number \<Rightarrow> js_number \<Rightarrow> js_number"

record BoundingBox =
  bb_x :: js_number
  bb_y :: js_number
  bb_width :: js_number
  bb_height :: js_number

record UIElement =
  el_id :: string
  el_tag :: string
  el_text :: string
  el_boundingBox :: BoundingBox
  el_selector :: "string option"
  el_clickable :: "bool option"
  el_inputable :: "bool option"

datatype action_type = Click | Type | Select | Wait | Navigate | Scroll

datatype action_status = Pending | Analyzing | Ready | Executing | Completed | Failed

record Action =
  act_id :: string
  act_type :: action_type
  act_target :: "UIElement option"
  act_value :: "string option"
  act_description :: string
  act_order :: int
  act_status :: action_status
  act_reason :: "string option"

datatype log_status = Success | Error | Info

record ExecutionLog =
  log_timestamp :: string
  log_action :: string
  log_status :: log_status
  log_details :: "string option"

section \<open>String primitives used by the source\<close>

text \<open>
  \<open>String.prototype.toLowerCase\<close> on code units below 256, read as the characters
  U+0000 to U+00FF: the letters \<open>A\<close> to \<open>Z\<close> (65 to 90) and the accented capitals U+00C0 to
  U+00DE, without the multiplication sign U+00D7, move up by 32; every other character
  is kept.  Characters beyond U+00FF, a few of which lower-case to an ASCII letter
  (U+212A, the Kelvin sign, to \<open>k\<close>), are outside the string type of the model.
\<close>

definition toLowerChar :: "char \<Rightarrow> char" where
  "toLowerChar c =
     (if (65 \<le> (of_char c :: nat) \<and> (of_char c :: nat) \<le> 90) \<or>
         (192 \<le> (of_char c :: nat) \<and> (of_char c :: nat) \<le> 222 \<and> (of_char c :: nat) \<noteq> 215)
      then char_of ((of_char c :: nat) + 32) else c)"

definition toLowerCase :: "string \<Rightarrow> string" where
  "toLowerCase s = map toLowerChar s"

text \<open>\<open>String.prototype.includes\<close>: does \<open>sub\<close> occur in \<open>s\<close> as a contiguous substring?\<close>

primrec includesStr :: "string \<Rightarrow> string \<Rightarrow> bool" where
  "includesStr [] sub = (sub = [])"
| "includesStr (c # cs) sub = (prefix sub (c # cs) \<or> includesStr cs sub)"

section \<open>Goal Classifier (src/App.tsx, generateActionsFromGoal)\<close>

definition generateActionsFromGoal :: "string \<Rightarrow> Action list" where
  "generateActionsFromGoal goal =
     (let goalLower = toLowerCase goal;
          actions0 = [];
          actions1 =
            (if includesStr goalLower ''product'' \<or> includesStr goalLower ''find''
             then actions0 @
               [\<lparr>act_id = ''1'', act_type = Click,
                 act_target = Some
                   \<lparr>el_id = ''prod-1'', el_tag = ''div'', el_text = ''Product Card - $29.99'',
                    el_boundingBox =
                      \<lparr>bb_x = Finite 10, bb_y = Finite 20, bb_width = Finite 20, bb_height = Finite 15\<rparr>,
                    el_selector = None, el_clickable = None, el_inputable = None\<rparr>,
                 act_value = None,
                 act_description = ''Click on first product under $50'',
                 act_order = 1, act_status = Pending, act_reason = None\<rparr>]
             else actions0);
          actions2 =
            (if includesStr goalLower ''cart'' \<or> includesStr goalLower ''add''
             then actions1 @
               [\<lparr>act_id = ''2'', act_type = Click,
                 act_target = Some
                   \<lparr>el_id = ''add-cart'', el_tag = ''button'', el_text = ''Add to Cart'',
                    el_boundingBox =
                      \<lparr>bb_x = Finite 40, bb_y = Finite 60, bb_width = Finite 15, bb_height = Finite 5\<rparr>,
                    el_selector = None, el_clickable = None, el_inputable = None\<rparr>,
                 act_value = None,
                 act_description = ''Click Add to Cart button'',
                 act_order = 2, act_status = Pending, act_reason = None\<rparr>]
             else actions1);
          actions3 =
            (if includesStr goalLower ''coupon'' \<or> includesStr goalLower ''apply''
             then actions2 @
               [\<lparr>act_id = ''3'', act_type = Type,
                 act_target = Some
                   \<lparr>el_id = ''coupon-input'', el_tag = ''input'', el_text = ''Coupon code'',
                    el_boundingBox =
                      \<lparr>bb_x = Finite 30, bb_y = Finite 70, bb_width = Finite 20, bb_height = Finite 4\<rparr>,
                    el_selector = None, el_clickable = None, el_inputable = None\<rparr>,
                 act_value = Some ''SAVE20'',
                 act_description = ''Enter coupon code'',
                 act_order = 3, act_status = Pending, act_reason = None\<rparr>]
             else actions2);
          actions4 =
            (if includesStr goalLower ''checkout'' \<or> includesStr goalLower ''guest''
             then actions3 @
               [\<lparr>act_id = ''4'', act_type = Click,
                 act_target = Some
                   \<lparr>el_id = ''checkout-btn'', el_tag = ''button'', el_text = ''Checkout'',
                    el_boundingBox =
                      \<lparr>bb_x = Finite 35, bb_y = Finite 85, bb_width = Finite 15, bb_height = Finite 5\<rparr>,
                    el_selector = None, el_clickable = None, el_inputable = None\<rparr>,
                 act_value = None,
                 act_description = ''Proceed to checkout as guest'',
                 act_order = 4, act_status = Pending, act_reason = None\<rparr>]
             else actions3)
      in actions4)"

text \<open>The demo goal of the README and of the input placeholder.\<close>

definition demoGoal :: string where
  "demoGoal = ''Find a product under $50, add to cart, apply coupon SAVE20, checkout as guest''"

section \<open>Oracle adapter (src/lib, analyzeScreen and generateMockAnalysis)\<close>

record AnalysisResult =
  ar_elements :: "UIElement list"
  ar_summary :: string
  ar_suggestedActions :: "string list"

definition generateMockAnalysis :: "string \<Rightarrow> AnalysisResult" where
  "generateMockAnalysis goal =
     (let goalLower = toLowerCase goal;
          elements0 = [];
          elements1 =
            (if includesStr goalLower ''product'' \<or> includesStr goalLower ''find''
             then elements0 @
               [\<lparr>el_id = ''prod-1'', el_tag = ''div'',
                 el_text = ''Product - Wireless Headphones - $49.99'',
                 el_boundingBox =
                   \<lparr>bb_x = Finite 5, bb_y = Finite 15, bb_width = Finite 25, bb_height = Finite 20\<rparr>,
                 el_selector = None, el_clickable = Some True, el_inputable = None\<rparr>,
                \<lparr>el_id = ''prod-2'', el_tag = ''div'',
                 el_text = ''Product - USB-C Cable - $12.99'',
                 el_boundingBox =
                   \<lparr>bb_x = Finite 35, bb_y = Finite 15, bb_width = Finite 25, bb_height = Finite 20\<rparr>,
                 el_selector = None, el_clickable = Some True, el_inputable = None\<rparr>]
             else elements0);
          elements2 =
            (if includesStr goalLower ''cart'' \<or> includesStr goalLower ''add''
             then elements1 @
               [\<lparr>el_id = ''add-cart-btn'', el_tag = ''button'', el_text = ''Add to Cart'',
                 el_boundingBox =
                   \<lparr>bb_x = Finite 40, bb_y = Finite 55, bb_width = Finite 15, bb_height = Finite 5\<rparr>,
                 el_selector = None, el_clickable = Some True, el_inputable = None\<rparr>]
             else elements1);
          elements3 =
            (if includesStr goalLower ''coupon''
             then elements2 @
               [\<lparr>el_id = ''coupon-input'', el_tag = ''input'', el_text = ''Coupon code'',
                 el_boundingBox =
                   \<lparr>bb_x = Finite 25, bb_y = Finite 65, bb_width = Finite 25, bb_height = Finite 4\<rparr>,
                 el_selector = None, el_clickable = None, el_inputable = Some True\<rparr>,
                \<lparr>el_id = ''apply-coupon-btn'', el_tag = ''button'', el_text = ''Apply'',
                 el_boundingBox =
                   \<lparr>bb_x = Finite 52, bb_y = Finite 65, bb_width = Finite 8, bb_height = Finite 4\<rparr>,
                 el_selector = None, el_clickable = Some True, el_inputable = None\<rparr>]
             else elements2);
          elements4 =
            (if includesStr goalLower ''checkout''
             then elements3 @
               [\<lparr>el_id = ''checkout-btn'', el_tag = ''button'',
                 el_text = ''Proceed to Checkout'',
                 el_boundingBox =
                   \<lparr>bb_x = Finite 30, bb_y = Finite 80, bb_width = Finite 20, bb_height = Finite 6\<rparr>,
                 el_selector = None, el_clickable = Some True, el_inputable = None\<rparr>,
                \<lparr>el_id = ''guest-checkout'', el_tag = ''button'',
                 el_text = ''Checkout as Guest'',
                 el_boundingBox =
                   \<lparr>bb_x = Finite 35, bb_y = Finite 40, bb_width = Finite 18, bb_height = Finite 5\<rparr>,
                 el_selector = None, el_clickable = Some True, el_inputable = None\<rparr>]
             else elements3);
          elements5 = elements4 @
               [\<lparr>el_id = ''nav-cart'', el_tag = ''a'', el_text = ''Cart (0)'',
                 el_boundingBox =
                   \<lparr>bb_x = Finite 80, bb_y = Finite 5, bb_width = Finite 10, bb_height = Finite 4\<rparr>,
                 el_selector = None, el_clickable = Some True, el_inputable = None\<rparr>]
      in \<lparr>ar_elements = elements5,
          ar_summary = ''E-commerce product listing page with multiple products, shopping cart, and checkout options'',
          ar_suggestedActions =
            [''Click on first product under $50'',
             ''Click Add to Cart'',
             ''Enter coupon code'',
             ''Click Apply'',
             ''Proceed to checkout as guest'']\<rparr>)"

text \<open>
  A thrown JavaScript value: an \<open>Error\<close> object with its message, or any other value.
  An \<open>async\<close> function is modelled by the way its promise settles: \<open>Inl e\<close> is a
  rejection with \<open>e\<close>, \<open>Inr v\<close> fulfilment with \<open>v\<close>.
\<close>

datatype js_error = ErrorObj string | NonError

text \<open>
  \<open>responseText.match(/\{[\s\S]*\}/)\<close>: the leftmost opening brace up to the last closing
  brace behind it, if there is one.
\<close>

definition jsonMatch :: "string \<Rightarrow> string option" where
  "jsonMatch responseText =
     (let fromBrace = dropWhile (\<lambda>c. c \<noteq> CHR ''{'') responseText
      in if fromBrace = [] then None
         else
           (let body = rev (dropWhile (\<lambda>c. c \<noteq> CHR ''}'') (rev (tl fromBrace)))
            in if body = [] then None else Some (CHR ''{'' # body)))"

text \<open>
  What \<open>analyzeScreen\<close> reads from the object that \<open>JSON.parse\<close> returns: each of the three
  properties, \<open>None\<close> when it is missing or falsy.  \<open>JSON.parse\<close> itself is a parameter of
  the model (\<open>Inl\<close> for its \<open>SyntaxError\<close>), and so is the remote model: \<open>remote n\<close> is how
  the \<open>n\<close>-th call of \<open>generateContent\<close> (with the reading of its response text) ends.
\<close>

record ParsedResponse =
  pr_elements :: "UIElement list option"
  pr_summary :: "string option"
  pr_suggestedActions :: "string list option"

text \<open>The body of the \<open>try\<close> block; the second component counts the remote calls made.\<close>

definition analyzeScreenTry ::
  "(nat \<Rightarrow> js_error + string) \<Rightarrow> (string \<Rightarrow> js_error + ParsedResponse) \<Rightarrow>
   nat \<Rightarrow> string \<Rightarrow> (js_error + AnalysisResult) \<times> nat" where
  "analyzeScreenTry remote jsonParse calls goal =
     (case remote calls of
        Inl e \<Rightarrow> (Inl e, Suc calls)
      | Inr responseText \<Rightarrow>
          (case jsonMatch responseText of
             Some block \<Rightarrow>
               (case jsonParse block of
                  Inl e \<Rightarrow> (Inl e, Suc calls)
                | Inr parsed \<Rightarrow>
                    (Inr \<lparr>ar_elements = (case pr_elements parsed of Some es \<Rightarrow> es | None \<Rightarrow> []),
                          ar_summary = (case pr_summary parsed of Some t \<Rightarrow> t | None \<Rightarrow> []),
                          ar_suggestedActions =
                            (case pr_suggestedActions parsed of Some xs \<Rightarrow> xs | None \<Rightarrow> [])\<rparr>,
                     Suc calls))
           | None \<Rightarrow> (Inr (generateMockAnalysis goal), Suc calls)))"

text \<open>
  \<open>analyzeScreen\<close>: \<open>API_KEY\<close> is the module constant read from the environment (the empty
  string when unset), \<open>calls\<close> the number of remote calls made so far.
\<close>

definition analyzeScreen ::
  "string \<Rightarrow> (nat \<Rightarrow> js_error + string) \<Rightarrow> (string \<Rightarrow> js_error + ParsedResponse) \<Rightarrow>
   nat \<Rightarrow> string \<Rightarrow> string \<Rightarrow> (js_error + AnalysisResult) \<times> nat" where
  "analyzeScreen API_KEY remote jsonParse calls imageData goal =
     (if API_KEY = [] then (Inr (generateMockAnalysis goal), calls)
      else
        (case analyzeScreenTry remote jsonParse calls goal of
           (Inr res, calls') \<Rightarrow> (Inr res, calls')
         | (Inl error, calls') \<Rightarrow> (Inr (generateMockAnalysis goal), calls')))"

section \<open>Artifact Generator (src/App.tsx)\<close>

definition nl :: string where
  "nl = [CHR 0x0A]"

definition apos :: string where
  "apos = [CHR 0x27]"

definition dquote :: string where
  "dquote = [CHR 0x22]"

definition backslash :: string where
  "backslash = [CHR 0x5C]"

text \<open>
  The character of a decimal or (lower-case) hexadecimal digit, and the decimal rendering
  of a non-negative integer, as a template literal prints it.
\<close>

definition digitChar :: "nat \<Rightarrow> char" where
  "digitChar d = ''0123456789abcdef'' ! d"

fun showNat :: "nat \<Rightarrow> string" where
  "showNat n =
     (if n < 10 then [digitChar n]
      else showNat (n div 10) @ [digitChar (n mod 10)])"

declare showNat.simps [simp del]

definition showInt :: "int \<Rightarrow> string" where
  "showInt k = (if k < 0 then ''-'' @ showNat (nat (- k)) else showNat (nat k))"

text \<open>\<open>Array.prototype.join\<close>.\<close>

fun joinWith :: "string \<Rightarrow> string list \<Rightarrow> string" where
  "joinWith sep [] = []"
| "joinWith sep [s] = s"
| "joinWith sep (s # t # ts) = s @ sep @ joinWith sep (t # ts)"

fun typeStr :: "action_type \<Rightarrow> string" where
  "typeStr Click = ''click''"
| "typeStr Type = ''type''"
| "typeStr Select = ''select''"
| "typeStr Wait = ''wait''"
| "typeStr Navigate = ''navigate''"
| "typeStr Scroll = ''scroll''"

fun statusStr :: "action_status \<Rightarrow> string" where
  "statusStr Pending = ''pending''"
| "statusStr Analyzing = ''analyzing''"
| "statusStr Ready = ''ready''"
| "statusStr Executing = ''executing''"
| "statusStr Completed = ''completed''"
| "statusStr Failed = ''failed''"

fun logStatusStr :: "log_status \<Rightarrow> string" where
  "logStatusStr Success = ''success''"
| "logStatusStr Error = ''error''"
| "logStatusStr Info = ''info''"

text \<open>
  \<open>generateSummary\<close> reads the clock: \<open>now\<close> is the value of
  \<open>new Date().toISOString()\<close> at the call.
\<close>

definition generateSummary :: "string \<Rightarrow> string \<Rightarrow> Action list \<Rightarrow> string" where
  "generateSummary now goal actions =
     ''# Execution Summary'' @ nl @
     nl @
     ''**Goal**: '' @ goal @ nl @
     nl @
     ''**Actions Executed**: '' @ showNat (length actions) @ nl @
     joinWith nl
       (map (\<lambda>(i, a). showNat (i + 1) @ ''. '' @ typeStr (act_type a) @ '': '' @
                 act_description a @ '' - '' @ statusStr (act_status a))
            (enumerate 0 actions)) @ nl @
     nl @
     ''**Why It Worked**:'' @ nl @
     ''- Visual grounding: Each action mapped to actual UI elements'' @ nl @
     ''- Bounding boxes validated before execution'' @ nl @
     ''- Step-by-step execution with real-time feedback'' @ nl @
     nl @
     ''**Generated**: '' @ now @ nl"

text \<open>\<open>a.target?.selector || fallback\<close>: the selector when it is present and non-empty.\<close>

definition selectorOr :: "Action \<Rightarrow> string \<Rightarrow> string" where
  "selectorOr a fallback =
     (case act_target a of
        None \<Rightarrow> fallback
      | Some t \<Rightarrow>
          (case el_selector t of
             None \<Rightarrow> fallback
           | Some sel \<Rightarrow> if sel = [] then fallback else sel))"

definition scriptStatement :: "Action \<Rightarrow> string" where
  "scriptStatement a =
     (if act_type a = Click then
        ''// '' @ act_description a @ nl @
        ''  await page.click('' @ apos @ selectorOr a ''#element'' @ apos @ '');'' @ nl
      else if act_type a = Type then
        ''// '' @ act_description a @ nl @
        ''  await page.fill('' @ apos @ selectorOr a ''#input'' @ apos @ '', '' @ apos @
          (case act_value a of Some v \<Rightarrow> v | None \<Rightarrow> ''undefined'') @ apos @ '');'' @ nl
      else [])"

definition generatePlaywrightScript :: "Action list \<Rightarrow> string" where
  "generatePlaywrightScript actions =
     ''import { test, expect } from '' @ apos @ ''@playwright/test'' @ apos @ '';'' @ nl @
     nl @
     ''test('' @ apos @ ''Vision-to-Workflow Demo'' @ apos @ '', async ({ page }) => {'' @ nl @
     ''  // Navigate to demo site'' @ nl @
     ''  await page.goto('' @ apos @ ''https://demo.playwright.dev/todomvc'' @ apos @ '');'' @ nl @
     ''  '' @ nl @
     ''  '' @ joinWith [] (map scriptStatement actions) @ nl @
     ''});'' @ nl"

text \<open>
  \<open>JSON.stringify(logs, null, 2)\<close>: string quoting with the escapes of the standard, the
  keys of each entry in their creation order, an undefined \<open>details\<close> left out.
\<close>

definition quoteJSONChar :: "char \<Rightarrow> string" where
  "quoteJSONChar c =
     (if c = CHR 0x22 then backslash @ dquote
      else if c = CHR 0x5C then backslash @ backslash
      else if c = CHR 0x08 then backslash @ ''b''
      else if c = CHR 0x0C then backslash @ ''f''
      else if c = CHR 0x0A then backslash @ ''n''
      else if c = CHR 0x0D then backslash @ ''r''
      else if c = CHR 0x09 then backslash @ ''t''
      else if (of_char c :: nat) < 32 then
        backslash @ ''u00'' @ [digitChar ((of_char c :: nat) div 16), digitChar ((of_char c :: nat) mod 16)]
      else [c])"

definition quoteJSON :: "string \<Rightarrow> string" where
  "quoteJSON s = dquote @ concat (map quoteJSONChar s) @ dquote"

definition logJSON :: "ExecutionLog \<Rightarrow> string" where
  "logJSON l =
     ''  {'' @ nl @
     ''    '' @ quoteJSON ''timestamp'' @ '': '' @ quoteJSON (log_timestamp l) @ '','' @ nl @
     ''    '' @ quoteJSON ''action'' @ '': '' @ quoteJSON (log_action l) @ '','' @ nl @
     ''    '' @ quoteJSON ''status'' @ '': '' @ quoteJSON (logStatusStr (log_status l)) @
     (case log_details l of
        None \<Rightarrow> []
      | Some d \<Rightarrow> '','' @ nl @ ''    '' @ quoteJSON ''details'' @ '': '' @ quoteJSON d) @ nl @
     ''  }''"

definition generateRunLog :: "ExecutionLog list \<Rightarrow> string" where
  "generateRunLog logs =
     (if logs = [] then ''[]''
      else ''['' @ nl @ joinWith ('','' @ nl) (map logJSON logs) @ nl @ '']'')"

section \<open>Step Executor of the user interface (src/App.tsx, handleExecute)\<close>

datatype agent_phase =
  Idle | Listening | PhaseAnalyzing | Planning | PhaseExecuting | PhaseCompleted | PhaseError

datatype artifact_type = Screenshot | PlaywrightScript | RunLog | Summary

record Artifact =
  art_type :: artifact_type
  art_content :: string
  art_filename :: "string option"

record AgentState =
  as_status :: agent_phase
  as_goal :: "string option"
  as_actions :: "Action list"
  as_logs :: "ExecutionLog list"
  as_artifacts :: "Artifact list"
  as_currentStep :: "nat option"
  as_error :: "string option"

text \<open>The three artifacts built at the end of \<open>handleExecute\<close>.\<close>

definition generateArtifacts ::
  "string \<Rightarrow> string option \<Rightarrow> Action list \<Rightarrow> ExecutionLog list \<Rightarrow> Artifact list" where
  "generateArtifacts now goal actions logs =
     [\<lparr>art_type = Summary,
       art_content = generateSummary now (case goal of Some g \<Rightarrow> g | None \<Rightarrow> []) actions,
       art_filename = Some ''execution-summary.md''\<rparr>,
      \<lparr>art_type = PlaywrightScript,
       art_content = generatePlaywrightScript actions,
       art_filename = Some ''workflow.spec.ts''\<rparr>,
      \<lparr>art_type = RunLog,
       art_content = generateRunLog logs,
       art_filename = Some ''run-log.json''\<rparr>]"

text \<open>
  The two state updaters of one loop iteration.  \<open>prev.actions.map((a, idx) => ...)\<close>
  rewrites the entry at index \<open>i\<close> and keeps the others.
\<close>

definition markExecuting :: "nat \<Rightarrow> AgentState \<Rightarrow> AgentState" where
  "markExecuting i prev =
     prev\<lparr>as_currentStep := Some i,
          as_actions :=
            map (\<lambda>(idx, a). if idx = i then a\<lparr>act_status := Executing\<rparr> else a)
                (enumerate 0 (as_actions prev))\<rparr>"

definition markResult :: "string \<Rightarrow> nat \<Rightarrow> Action \<Rightarrow> bool \<Rightarrow> AgentState \<Rightarrow> AgentState" where
  "markResult timestamp i action success prev =
     prev\<lparr>as_actions :=
            map (\<lambda>(idx, a).
                   if idx = i
                   then a\<lparr>act_status := (if success then Completed else Failed),
                          act_reason := Some (if success then ''Action completed successfully''
                                              else ''Element not found'')\<rparr>
                   else a)
                (enumerate 0 (as_actions prev)),
          as_logs := as_logs prev @
            [\<lparr>log_timestamp = timestamp,
              log_action = typeStr (act_type action) @ '': '' @ act_description action,
              log_status = (if success then Success else Error),
              log_details = Some (if success then ''Target element clicked'' else ''Retrying...'')\<rparr>]\<rparr>"

text \<open>
  The \<open>for\<close> loop of \<open>handleExecute\<close> from index \<open>i\<close> on, over the remaining entries of the
  captured \<open>actions\<close> array.  \<open>rand i\<close> is the outcome of \<open>Math.random() > 0.1\<close> in iteration
  \<open>i\<close>, \<open>clock k\<close> the \<open>k\<close>-th time stamp read in the run.  The result lists, for every
  iteration, its index, the state after the first update and the state after the second;
  the awaited delays between them change no state.
\<close>

fun executeSteps ::
  "(nat \<Rightarrow> bool) \<Rightarrow> (nat \<Rightarrow> string) \<Rightarrow> nat \<Rightarrow> Action list \<Rightarrow> AgentState \<Rightarrow>
   (nat \<times> AgentState \<times> AgentState) list" where
  "executeSteps rand clock i [] st = []"
| "executeSteps rand clock i (action # rest) st =
     (let began = markExecuting i st;
          success = rand i;
          ended = markResult (clock (Suc i)) i action success began
      in (i, began, ended) # executeSteps rand clock (Suc i) rest ended)"

definition handleExecute ::
  "(nat \<Rightarrow> bool) \<Rightarrow> (nat \<Rightarrow> string) \<Rightarrow> AgentState \<Rightarrow>
   (nat \<times> AgentState \<times> AgentState) list \<times> AgentState" where
  "handleExecute rand clock agentState =
     (let actions = as_actions agentState;
          started = agentState
            \<lparr>as_status := PhaseExecuting, as_currentStep := Some 0,
             as_logs := as_logs agentState @
               [\<lparr>log_timestamp = clock 0, log_action = ''Starting execution'',
                 log_status = Info, log_details = None\<rparr>]\<rparr>;
          steps = executeSteps rand clock 0 actions started;
          looped = (if steps = [] then started else snd (snd (last steps)));
          artifacts = generateArtifacts (clock (Suc (length actions)))
                        (as_goal agentState) actions (as_logs agentState)
      in (steps,
          looped\<lparr>as_status := PhaseCompleted, as_artifacts := artifacts,
                 as_logs := as_logs looped @
                   [\<lparr>log_timestamp = clock (Suc (Suc (length actions))),
                     log_action = ''Execution complete'', log_status = Success,
                     log_details = Some (showNat (length artifacts) @ '' artifacts generated'')\<rparr>]\<rparr>))"

section \<open>Playwright execution engine (src/lib/playwright-runner.ts)\<close>

text \<open>
  The browser and the clock are outside the program.  The model threads a state \<open>'w\<close> of
  that outside world through every awaited driver call; each call returns how it ended
  (\<open>Inl\<close>: it threw) and the world after it.  The module variable \<open>page\<close> is a
  \<open>'w Page option\<close>, \<open>None\<close> for \<open>null\<close>.
\<close>

record 'w Page =
  pg_query :: "string \<Rightarrow> 'w \<Rightarrow> (js_error + bool) \<times> 'w"
  pg_click :: "string \<Rightarrow> 'w \<Rightarrow> (js_error + unit) \<times> 'w"
  pg_mouseClick :: "js_number \<Rightarrow> js_number \<Rightarrow> 'w \<Rightarrow> (js_error + unit) \<times> 'w"
  pg_fill :: "string \<Rightarrow> string \<Rightarrow> 'w \<Rightarrow> (js_error + unit) \<times> 'w"
  pg_waitForTimeout :: "nat \<Rightarrow> 'w \<Rightarrow> (js_error + unit) \<times> 'w"
  pg_scrollBy :: "js_number \<Rightarrow> js_number \<Rightarrow> 'w \<Rightarrow> (js_error + unit) \<times> 'w"
  pg_screenshot :: "'w \<Rightarrow> (js_error + string) \<times> 'w"

record 'w Clock =
  nowISO :: "'w \<Rightarrow> string"
  nowMs :: "'w \<Rightarrow> int"

record ExecutionResult =
  er_success :: bool
  er_logs :: "ExecutionLog list"
  er_screenshot :: "string option"

definition captureScreen :: "'w Page option \<Rightarrow> 'w \<Rightarrow> (js_error + string) \<times> 'w" where
  "captureScreen page w =
     (case page of
        None \<Rightarrow> (Inl (ErrorObj ''No page initialized''), w)
      | Some p \<Rightarrow> pg_screenshot p w)"

definition selectorsFor :: "UIElement \<Rightarrow> string list" where
  "selectorsFor element =
     [''text='' @ el_text element,
      ''[aria-label*='' @ dquote @ el_text element @ dquote @ '']'',
      ''button:has-text('' @ dquote @ el_text element @ dquote @ '')'',
      ''a:has-text('' @ dquote @ el_text element @ dquote @ '')'',
      ''input[placeholder*='' @ dquote @ el_text element @ dquote @ '']'']"

text \<open>The \<open>for\<close> loop of \<open>findElement\<close>: a query that throws moves on to the next selector.\<close>

fun trySelectors :: "'w Page \<Rightarrow> string list \<Rightarrow> 'w \<Rightarrow> string option \<times> 'w" where
  "trySelectors p [] w = (None, w)"
| "trySelectors p (selector # rest) w =
     (case pg_query p selector w of
        (Inr found, w') \<Rightarrow> if found then (Some selector, w') else trySelectors p rest w'
      | (Inl e, w') \<Rightarrow> trySelectors p rest w')"

text \<open>
  \<open>findElement\<close> is called with \<open>action.target!\<close>; an undefined target makes the read of
  \<open>element.text\<close> throw a \<open>TypeError\<close>.
\<close>

definition findElement ::
  "'w Page option \<Rightarrow> UIElement option \<Rightarrow> 'w \<Rightarrow> (js_error + string option) \<times> 'w" where
  "findElement page element w =
     (case page of
        None \<Rightarrow> (Inr None, w)
      | Some p \<Rightarrow>
          (case element of
             None \<Rightarrow> (Inl (ErrorObj ''Cannot read properties of undefined (reading 'text')''), w)
           | Some el \<Rightarrow>
               (case trySelectors p (selectorsFor el) w of (r, w') \<Rightarrow> (Inr r, w'))))"

text \<open>
  Truthiness of an optional string: \<open>undefined\<close>, \<open>null\<close> and the empty string are falsy.
\<close>

definition truthy :: "string option \<Rightarrow> string option" where
  "truthy v = (case v of None \<Rightarrow> None | Some t \<Rightarrow> if t = [] then None else Some t)"

text \<open>\<open>action.target?.selector || await findElement(action.target!)\<close>.\<close>

definition resolveSelector ::
  "'w Page \<Rightarrow> Action \<Rightarrow> 'w \<Rightarrow> (js_error + string option) \<times> 'w" where
  "resolveSelector p action w =
     (case truthy (case act_target action of None \<Rightarrow> None | Some t \<Rightarrow> el_selector t) of
        Some sel \<Rightarrow> (Inr (Some sel), w)
      | None \<Rightarrow> findElement (Some p) (act_target action) w)"

text \<open>
  The \<open>switch\<close> inside the \<open>try\<close> block of \<open>executeAction\<close>.  The position of the
  coordinate click is \<open>(box.x + box.width / 2) / 100 * 800\<close> and
  \<open>(box.y + box.height / 2) / 100 * 600\<close>, calculated in the arithmetic \<open>ar\<close>.
\<close>

definition performAction ::
  "js_arith \<Rightarrow> 'w Page \<Rightarrow> Action \<Rightarrow> 'w \<Rightarrow> (js_error + unit) \<times> 'w" where
  "performAction ar p action w =
     (case act_type action of
        Click \<Rightarrow>
          (case resolveSelector p action w of
             (Inl e, w1) \<Rightarrow> (Inl e, w1)
           | (Inr selector, w1) \<Rightarrow>
               (case truthy selector of
                  Some sel \<Rightarrow> pg_click p sel w1
                | None \<Rightarrow>
                    (case act_target action of
                       None \<Rightarrow> (Inr (), w1)
                     | Some t \<Rightarrow>
                         (let box = el_boundingBox t
                          in pg_mouseClick p
                               (js_mul ar
                                  (js_div ar
                                     (js_add ar (bb_x box) (js_div ar (bb_width box) (Finite 2)))
                                     (Finite 100))
                                  (Finite 800))
                               (js_mul ar
                                  (js_div ar
                                     (js_add ar (bb_y box) (js_div ar (bb_height box) (Finite 2)))
                                     (Finite 100))
                                  (Finite 600)) w1))))
      | Type \<Rightarrow>
          (case resolveSelector p action w of
             (Inl e, w1) \<Rightarrow> (Inl e, w1)
           | (Inr selector, w1) \<Rightarrow>
               (case truthy selector of
                  Some sel \<Rightarrow>
                    (case truthy (act_value action) of
                       Some v \<Rightarrow> pg_fill p sel v w1
                     | None \<Rightarrow> (Inr (), w1))
                | None \<Rightarrow> (Inr (), w1)))
      | Wait \<Rightarrow> pg_waitForTimeout p 1000 w
      | Scroll \<Rightarrow> pg_scrollBy p (Finite 0) (Finite 300) w
      | Select \<Rightarrow> (Inr (), w)
      | Navigate \<Rightarrow> (Inr (), w))"

definition executeAction ::
  "js_arith \<Rightarrow> 'w Clock \<Rightarrow> 'w Page option \<Rightarrow> Action \<Rightarrow> 'w \<Rightarrow> (js_error + ExecutionLog) \<times> 'w" where
  "executeAction ar clk page action w =
     (case page of
        None \<Rightarrow>
          (Inr \<lparr>log_timestamp = nowISO clk w, log_action = act_description action,
                log_status = Error, log_details = Some ''No page initialized''\<rparr>, w)
      | Some p \<Rightarrow>
          (let startTime = nowMs clk w
           in case performAction ar p action w of
                (Inr u, w') \<Rightarrow>
                  (let duration = nowMs clk w' - startTime
                   in (Inr \<lparr>log_timestamp = nowISO clk w', log_action = act_description action,
                            log_status = Success,
                            log_details = Some (''Completed in '' @ showInt duration @ ''ms'')\<rparr>,
                       w'))
              | (Inl error, w') \<Rightarrow>
                  (Inr \<lparr>log_timestamp = nowISO clk w', log_action = act_description action,
                        log_status = Error,
                        log_details =
                          Some (case error of ErrorObj message \<Rightarrow> message
                                | NonError \<Rightarrow> ''Unknown error'')\<rparr>,
                   w')))"

text \<open>
  The \<open>for\<close> loop of \<open>executeWorkflow\<close> from index \<open>i\<close> on, with the log collected so far.
  The optional callback \<open>onStep\<close> and the recovery wait are awaited outside any \<open>try\<close>, so
  their failure ends the whole run.
\<close>

fun workflowLoop ::
  "js_arith \<Rightarrow> 'w Clock \<Rightarrow> 'w Page option \<Rightarrow>
   (nat \<Rightarrow> Action \<Rightarrow> 'w \<Rightarrow> (js_error + unit) \<times> 'w) option \<Rightarrow>
   nat \<Rightarrow> Action list \<Rightarrow> ExecutionLog list \<Rightarrow> 'w \<Rightarrow> (js_error + ExecutionLog list) \<times> 'w" where
  "workflowLoop ar clk page onStep i [] logs w = (Inr logs, w)"
| "workflowLoop ar clk page onStep i (action # rest) logs w =
     (case (case onStep of None \<Rightarrow> (Inr (), w) | Some f \<Rightarrow> f i action w) of
        (Inl e, w1) \<Rightarrow> (Inl e, w1)
      | (Inr u, w1) \<Rightarrow>
          (case executeAction ar clk page action w1 of
             (Inl e, w2) \<Rightarrow> (Inl e, w2)
           | (Inr entry, w2) \<Rightarrow>
               (if log_status entry = Error
                then
                  (case page of
                     None \<Rightarrow> workflowLoop ar clk page onStep (Suc i) rest (logs @ [entry]) w2
                   | Some p \<Rightarrow>
                       (case pg_waitForTimeout p 500 w2 of
                          (Inl e, w3) \<Rightarrow> (Inl e, w3)
                        | (Inr u', w3) \<Rightarrow>
                            workflowLoop ar clk page onStep (Suc i) rest (logs @ [entry]) w3))
                else workflowLoop ar clk page onStep (Suc i) rest (logs @ [entry]) w2)))"

definition executeWorkflow ::
  "js_arith \<Rightarrow> 'w Clock \<Rightarrow> 'w Page option \<Rightarrow>
   (nat \<Rightarrow> Action \<Rightarrow> 'w \<Rightarrow> (js_error + unit) \<times> 'w) option \<Rightarrow>
   Action list \<Rightarrow> 'w \<Rightarrow> (js_error + ExecutionResult) \<times> 'w" where
  "executeWorkflow ar clk page onStep actions w =
     (case workflowLoop ar clk page onStep 0 actions [] w of
        (Inl e, w1) \<Rightarrow> (Inl e, w1)
      | (Inr logs, w1) \<Rightarrow>
          (case captureScreen page w1 of
             (shot, w2) \<Rightarrow>
               (Inr \<lparr>er_success = list_all (\<lambda>l. log_status l \<noteq> Error) logs,
                     er_logs = logs,
                     er_screenshot = (case shot of Inr s \<Rightarrow> Some s | Inl e \<Rightarrow> None)\<rparr>,
                w2)))"

section \<open>Predicates and test doubles used in the statements\<close>

text \<open>A step has ended when its action is completed or failed.\<close>

definition terminal :: "action_status \<Rightarrow> bool" where
  "terminal s = (s = Completed \<or> s = Failed)"

text \<open>
  What one iteration \<open>(k, began, ended)\<close> of the loop of \<open>handleExecute\<close> over a plan of \<open>n\<close>
  actions must look like: when step \<open>k\<close> begins it is the current step and marked
  executing, every earlier step has ended, no other step is executing; when it ends its
  status is completed or failed according to the draw, and no other status has changed.
\<close>

definition sequentialStep :: "(nat \<Rightarrow> bool) \<Rightarrow> nat \<Rightarrow> nat \<times> AgentState \<times> AgentState \<Rightarrow> bool" where
  "sequentialStep rand n step =
     (case step of (k, began, ended) \<Rightarrow>
        k < n \<and> as_currentStep began = Some k \<and>
        act_status (as_actions began ! k) = Executing \<and>
        (\<forall>j<k. terminal (act_status (as_actions began ! j))) \<and>
        (\<forall>j<n. j \<noteq> k \<longrightarrow> act_status (as_actions began ! j) \<noteq> Executing) \<and>
        act_status (as_actions ended ! k) = (if rand k then Completed else Failed) \<and>
        (\<forall>j<n. j \<noteq> k \<longrightarrow> act_status (as_actions ended ! j) = act_status (as_actions began ! j)))"

text \<open>
  A browser double for concrete runs: the world is the list of driver calls made so far,
  \<open>found\<close> tells which selectors match an element, \<open>fails\<close> which calls throw.
\<close>

datatype driver_call =
    Query string
  | ClickSelector string
  | MouseClick js_number js_number
  | Fill string string
  | WaitForTimeout nat
  | ScrollBy js_number js_number
  | TakeScreenshot
  | StepCallback nat int

definition targetClosed :: js_error where
  "targetClosed = ErrorObj ''Target page, context or browser has been closed''"

definition scriptedPage ::
  "(string \<Rightarrow> bool) \<Rightarrow> (driver_call \<Rightarrow> bool) \<Rightarrow> (driver_call list) Page" where
  "scriptedPage found fails =
     \<lparr>pg_query = (\<lambda>sel w.
        (if fails (Query sel) then Inl targetClosed else Inr (found sel), w @ [Query sel])),
      pg_click = (\<lambda>sel w.
        (if fails (ClickSelector sel) then Inl targetClosed else Inr (),
         w @ [ClickSelector sel])),
      pg_mouseClick = (\<lambda>cx cy w.
        (if fails (MouseClick cx cy) then Inl targetClosed else Inr (),
         w @ [MouseClick cx cy])),
      pg_fill = (\<lambda>sel v w.
        (if fails (Fill sel v) then Inl targetClosed else Inr (), w @ [Fill sel v])),
      pg_waitForTimeout = (\<lambda>ms w.
        (if fails (WaitForTimeout ms) then Inl targetClosed else Inr (),
         w @ [WaitForTimeout ms])),
      pg_scrollBy = (\<lambda>dx dy w.
        (if fails (ScrollBy dx dy) then Inl targetClosed else Inr (), w @ [ScrollBy dx dy])),
      pg_screenshot = (\<lambda>w.
        (if fails TakeScreenshot then Inl targetClosed else Inr ''data:image/png;base64,'',
         w @ [TakeScreenshot]))\<rparr>"

definition nothingFound :: "string \<Rightarrow> bool" where
  "nothingFound sel = False"

definition neverFails :: "driver_call \<Rightarrow> bool" where
  "neverFails c = False"

definition alwaysFails :: "driver_call \<Rightarrow> bool" where
  "alwaysFails c = True"

definition onlyFails :: "driver_call \<Rightarrow> driver_call \<Rightarrow> bool" where
  "onlyFails bad c = (c = bad)"

definition tickClock :: "(driver_call list) Clock" where
  "tickClock = \<lparr>nowISO = (\<lambda>w. ''T'' @ showNat (length w)), nowMs = (\<lambda>w. int (length w))\<rparr>"

definition recordStep ::
  "nat \<Rightarrow> Action \<Rightarrow> driver_call list \<Rightarrow> (js_error + unit) \<times> driver_call list" where
  "recordStep i action w = (Inr (), w @ [StepCallback i (act_order action)])"

fun stepOrders :: "driver_call list \<Rightarrow> int list" where
  "stepOrders [] = []"
| "stepOrders (StepCallback i ord # cs) = ord # stepOrders cs"
| "stepOrders (c # cs) = stepOrders cs"

text \<open>
  The part of the trace that belongs to one step of \<open>executeWorkflow\<close> on the browser
  double with the recording callback: the step callback with the index of the step,
  then the driver calls that \<open>executeAction\<close> makes for the action, then the recovery wait
  if the action ended in an error entry.  On the double the calls made for an action do
  not depend on the calls made before, so they are read off a run of the action alone.
\<close>

definition stepSegment ::
  "js_arith \<Rightarrow> (string \<Rightarrow> bool) \<Rightarrow> (driver_call \<Rightarrow> bool) \<Rightarrow> nat \<times> Action \<Rightarrow> driver_call list" where
  "stepSegment ar found fails step =
     (case step of (i, action) \<Rightarrow>
        StepCallback i (act_order action) #
        snd (executeAction ar tickClock (Some (scriptedPage found fails)) action []) @
        (if map_sum id log_status
              (fst (executeAction ar tickClock (Some (scriptedPage found fails)) action [])) =
            Inr Error
         then [WaitForTimeout 500] else []))"

text \<open>
  A click action on a button with the given text, selector (none when empty), \<open>order\<close>
  and bounding box.
\<close>

definition clickOn :: "string \<Rightarrow> string \<Rightarrow> int \<Rightarrow> BoundingBox \<Rightarrow> Action" where
  "clickOn label sel ord box =
     \<lparr>act_id = label, act_type = Click,
      act_target = Some
        \<lparr>el_id = label, el_tag = ''button'', el_text = label, el_boundingBox = box,
         el_selector = (if sel = [] then None else Some sel),
         el_clickable = None, el_inputable = None\<rparr>,
      act_value = None, act_description = label, act_order = ord,
      act_status = Pending, act_reason = None\<rparr>"

text \<open>
  An arithmetic double for concrete runs: exact on finite operands, \<open>NaN\<close> when an operand
  is \<open>NaN\<close>.  At every operation of the runs below either an operand is \<open>NaN\<close> or the
  operands and the exact result are binary64 values, so binary64 arithmetic gives the
  same numbers there.  The remaining cases (an infinite or negative-zero operand, a zero
  divisor) do not occur in those runs; the double answers \<open>NaN\<close> to them.
\<close>

fun exactAdd :: "js_number \<Rightarrow> js_number \<Rightarrow> js_number" where
  "exactAdd (Finite a) (Finite b) = Finite (a + b)"
| "exactAdd a b = NaN"

fun exactDiv :: "js_number \<Rightarrow> js_number \<Rightarrow> js_number" where
  "exactDiv (Finite a) (Finite b) = (if b = 0 then NaN else Finite (a / b))"
| "exactDiv a b = NaN"

fun exactMul :: "js_number \<Rightarrow> js_number \<Rightarrow> js_number" where
  "exactMul (Finite a) (Finite b) = Finite (a * b)"
| "exactMul a b = NaN"

definition exactArith :: js_arith where
  "exactArith = \<lparr>js_add = exactAdd, js_div = exactDiv, js_mul = exactMul\<rparr>"

definition pointBox :: BoundingBox where
  "pointBox = \<lparr>bb_x = Finite 50, bb_y = Finite 50, bb_width = Finite 0, bb_height = Finite 0\<rparr>"

definition flatBox :: BoundingBox where
  "flatBox = \<lparr>bb_x = Finite 10, bb_y = Finite 25, bb_width = Finite 30, bb_height = Finite 0\<rparr>"

definition nanBox :: BoundingBox where
  "nanBox = \<lparr>bb_x = NaN, bb_y = Finite 50, bb_width = Finite 0, bb_height = Finite 0\<rparr>"

text \<open>Remote models and a parser for concrete runs of \<open>analyzeScreen\<close>.\<close>

definition remoteDown :: "nat \<Rightarrow> js_error + string" where
  "remoteDown n = Inl (ErrorObj ''fetch failed'')"

definition remoteProse :: "nat \<Rightarrow> js_error + string" where
  "remoteProse n = Inr ''Sorry, I cannot analyze this image.''"

definition remoteBroken :: "nat \<Rightarrow> js_error + string" where
  "remoteBroken n = Inr ''Here you go: {elements: oops} done''"

definition rejectAll :: "string \<Rightarrow> js_error + ParsedResponse" where
  "rejectAll block = Inl (ErrorObj ''SyntaxError: Unexpected token'')"

text \<open>The state of the user interface once the plan for the demo goal is shown.\<close>

definition plannedState :: AgentState where
  "plannedState =
     \<lparr>as_status = Planning, as_goal = Some demoGoal,
      as_actions = generateActionsFromGoal demoGoal, as_logs = [],
      as_artifacts = [], as_currentStep = None, as_error = None\<rparr>"

definition secondFails :: "nat \<Rightarrow> bool" where
  "secondFails i = (i \<noteq> 1)"

definition stepClock :: "nat \<Rightarrow> string" where
  "stepClock k = ''2026-11-02T10:00:0'' @ showNat k @ ''.000Z''"

section \<open>Verification: the Goal Classifier\<close>

lemma includesStr_sublist: "includesStr s sub \<longleftrightarrow> sublist sub s"
  by (induction s) (auto simp: sublist_Cons_right)

lemma demoGoal_lower:
  "toLowerCase demoGoal =
     ''find a product under $50, add to cart, apply coupon save20, checkout as guest''"
  by code_simp

lemma demoGoal_actions:
  "generateActionsFromGoal demoGoal =
     [\<lparr>act_id = ''1'', act_type = Click,
       act_target = Some
         \<lparr>el_id = ''prod-1'', el_tag = ''div'', el_text = ''Product Card - $29.99'',
          el_boundingBox =
            \<lparr>bb_x = Finite 10, bb_y = Finite 20, bb_width = Finite 20, bb_height = Finite 15\<rparr>,
          el_selector = None, el_clickable = None, el_inputable = None\<rparr>,
       act_value = None,
       act_description = ''Click on first product under $50'',
       act_order = 1, act_status = Pending, act_reason = None\<rparr>,
      \<lparr>act_id = ''2'', act_type = Click,
       act_target = Some
         \<lparr>el_id = ''add-cart'', el_tag = ''button'', el_text = ''Add to Cart'',
          el_boundingBox =
            \<lparr>bb_x = Finite 40, bb_y = Finite 60, bb_width = Finite 15, bb_height = Finite 5\<rparr>,
          el_selector = None, el_clickable = None, el_inputable = None\<rparr>,
       act_value = None,
       act_description = ''Click Add to Cart button'',
       act_order = 2, act_status = Pending, act_reason = None\<rparr>,
      \<lparr>act_id = ''3'', act_type = Type,
       act_target = Some
         \<lparr>el_id = ''coupon-input'', el_tag = ''input'', el_text = ''Coupon code'',
          el_boundingBox =
            \<lparr>bb_x = Finite 30, bb_y = Finite 70, bb_width = Finite 20, bb_height = Finite 4\<rparr>,
          el_selector = None, el_clickable = None, el_inputable = None\<rparr>,
       act_value = Some ''SAVE20'',
       act_description = ''Enter coupon code'',
       act_order = 3, act_status = Pending, act_reason = None\<rparr>,
      \<lparr>act_id = ''4'', act_type = Click,
       act_target = Some
         \<lparr>el_id = ''checkout-btn'', el_tag = ''button'', el_text = ''Checkout'',
          el_boundingBox =
            \<lparr>bb_x = Finite 35, bb_y = Finite 85, bb_width = Finite 15, bb_height = Finite 5\<rparr>,
          el_selector = None, el_clickable = None, el_inputable = None\<rparr>,
       act_value = None,
       act_description = ''Proceed to checkout as guest'',
       act_order = 4, act_status = Pending, act_reason = None\<rparr>]"
  unfolding generateActionsFromGoal_def demoGoal_lower by (simp add: Let_def)

lemma classifier_subseq_demo:
  "subseq (generateActionsFromGoal goal) (generateActionsFromGoal demoGoal)"
  unfolding demoGoal_actions
  unfolding generateActionsFromGoal_def Let_def
  by (simp split: if_splits)

lemma reversed_keywords_lower:
  "toLowerCase ''Checkout, then the COUPON, then the cart, then a product'' =
     ''checkout, then the coupon, then the cart, then a product''"
  by code_simp

lemma reversed_keywords_actions:
  "generateActionsFromGoal ''Checkout, then the COUPON, then the cart, then a product'' =
     generateActionsFromGoal demoGoal"
  unfolding demoGoal_actions
  unfolding generateActionsFromGoal_def reversed_keywords_lower
  by (simp add: Let_def)

text \<open>
  Claim C3.  For the demo goal the classifier returns exactly four actions: click on the
  product, click on add-to-cart, type the coupon value \<open>SAVE20\<close>, click on checkout, in
  this order.  For every goal text the output is a subsequence of these four templates in
  that same order, whatever the order of the keywords in the text: a goal naming checkout
  first and the product last yields the same list as the demo goal.
\<close>

theorem C3_classifier_table_order:
  "map (\<lambda>a. (act_type a, act_description a, act_value a)) (generateActionsFromGoal demoGoal) =
     [(Click, ''Click on first product under $50'', None),
      (Click, ''Click Add to Cart button'', None),
      (Type, ''Enter coupon code'', Some ''SAVE20''),
      (Click, ''Proceed to checkout as guest'', None)]
   \<and> (\<forall>goal. subseq (generateActionsFromGoal goal) (generateActionsFromGoal demoGoal))
   \<and> generateActionsFromGoal ''Checkout, then the COUPON, then the cart, then a product'' =
       generateActionsFromGoal demoGoal"
proof (intro conjI allI)
  show "map (\<lambda>a. (act_type a, act_description a, act_value a)) (generateActionsFromGoal demoGoal) =
     [(Click, ''Click on first product under $50'', None),
      (Click, ''Click Add to Cart button'', None),
      (Type, ''Enter coupon code'', Some ''SAVE20''),
      (Click, ''Proceed to checkout as guest'', None)]"
    unfolding demoGoal_actions by simp
next
  fix goal
  show "subseq (generateActionsFromGoal goal) (generateActionsFromGoal demoGoal)"
    by (rule classifier_subseq_demo)
next
  show "generateActionsFromGoal ''Checkout, then the COUPON, then the cart, then a product'' =
       generateActionsFromGoal demoGoal"
    by (rule reversed_keywords_actions)
qed

text \<open>
  Claim C4.  A goal text whose lower-casing contains none of the eight vocabulary
  substrings is classified to the empty action list; the empty goal is such a text.
\<close>

theorem C4_no_keyword_empty_plan:
  assumes "\<not> includesStr (toLowerCase goal) ''product''"
      and "\<not> includesStr (toLowerCase goal) ''find''"
      and "\<not> includesStr (toLowerCase goal) ''cart''"
      and "\<not> includesStr (toLowerCase goal) ''add''"
      and "\<not> includesStr (toLowerCase goal) ''coupon''"
      and "\<not> includesStr (toLowerCase goal) ''apply''"
      and "\<not> includesStr (toLowerCase goal) ''checkout''"
      and "\<not> includesStr (toLowerCase goal) ''guest''"
  shows "generateActionsFromGoal goal = []"
  using assms by (simp add: generateActionsFromGoal_def Let_def)

theorem C4_no_keyword_empty_plan_witness:
  "\<not> includesStr (toLowerCase []) ''product'' \<and> \<not> includesStr (toLowerCase []) ''find'' \<and>
   \<not> includesStr (toLowerCase []) ''cart'' \<and> \<not> includesStr (toLowerCase []) ''add'' \<and>
   \<not> includesStr (toLowerCase []) ''coupon'' \<and> \<not> includesStr (toLowerCase []) ''apply'' \<and>
   \<not> includesStr (toLowerCase []) ''checkout'' \<and> \<not> includesStr (toLowerCase []) ''guest'' \<and>
   generateActionsFromGoal [] = [] \<and>
   generateActionsFromGoal ''Hello, World'' = []"
  using C4_no_keyword_empty_plan [of "[]"] C4_no_keyword_empty_plan [of "''Hello, World''"]
  by (simp add: toLowerCase_def toLowerChar_def)

text \<open>
  Claim C9.  In every classifier output each action is pending and carries a target
  element (which always has a bounding box), the \<open>order\<close> fields increase strictly and
  form a subsequence of 1, 2, 3, 4, and the \<open>id\<close> fields are pairwise distinct.
\<close>

theorem C9_classifier_output_invariants:
  "list_all (\<lambda>a. act_status a = Pending \<and> act_target a \<noteq> None) (generateActionsFromGoal goal)
   \<and> sorted_wrt (<) (map act_order (generateActionsFromGoal goal))
   \<and> subseq (map act_order (generateActionsFromGoal goal)) [1, 2, 3, 4]
   \<and> distinct (map act_id (generateActionsFromGoal goal))"
  unfolding generateActionsFromGoal_def Let_def
  by (simp split: if_splits)

section \<open>Verification: the fallback analysis\<close>

text \<open>
  Claim C10.  For every goal text the fallback analysis has a non-empty element list
  whose last entry is the navigation link \<open>Cart (0)\<close>, and exactly five suggested action
  strings; for the empty goal, which the classifier maps to the empty plan, the element
  list is that link alone.
\<close>

theorem C10_mock_analysis_shape:
  "ar_elements (generateMockAnalysis goal) \<noteq> []
   \<and> el_id (last (ar_elements (generateMockAnalysis goal))) = ''nav-cart''
   \<and> el_text (last (ar_elements (generateMockAnalysis goal))) = ''Cart (0)''
   \<and> length (ar_suggestedActions (generateMockAnalysis goal)) = 5
   \<and> generateActionsFromGoal [] = []
   \<and> map el_text (ar_elements (generateMockAnalysis [])) = [''Cart (0)'']"
  unfolding generateMockAnalysis_def generateActionsFromGoal_def Let_def
  by (simp add: toLowerCase_def)

lemma demoGoal_mock:
  "ar_suggestedActions (generateMockAnalysis demoGoal) =
     [''Click on first product under $50'', ''Click Add to Cart'', ''Enter coupon code'',
      ''Click Apply'', ''Proceed to checkout as guest'']
   \<and> map el_id (ar_elements (generateMockAnalysis demoGoal)) =
     [''prod-1'', ''prod-2'', ''add-cart-btn'', ''coupon-input'', ''apply-coupon-btn'',
      ''checkout-btn'', ''guest-checkout'', ''nav-cart'']"
  unfolding generateMockAnalysis_def demoGoal_lower by (simp add: Let_def)

text \<open>
  Claim C2, as stated, fails: for the demo goal the fallback analysis and the classifier
  differ in the number of entries (five suggested strings and eight elements against four
  actions), in the texts, and in the elements.
\<close>

theorem C2_fallback_differs_from_classifier:
  "length (ar_suggestedActions (generateMockAnalysis demoGoal)) \<noteq>
     length (generateActionsFromGoal demoGoal)
   \<and> ar_suggestedActions (generateMockAnalysis demoGoal) \<noteq>
     map act_description (generateActionsFromGoal demoGoal)
   \<and> map Some (ar_elements (generateMockAnalysis demoGoal)) \<noteq>
     map act_target (generateActionsFromGoal demoGoal)"
proof -
  have "length (map el_id (ar_elements (generateMockAnalysis demoGoal))) = 8"
    unfolding conjunct2 [OF demoGoal_mock] by simp
  then have "length (map Some (ar_elements (generateMockAnalysis demoGoal))) \<noteq>
        length (map act_target (generateActionsFromGoal demoGoal))"
    unfolding demoGoal_actions by simp
  then have "map Some (ar_elements (generateMockAnalysis demoGoal)) \<noteq>
     map act_target (generateActionsFromGoal demoGoal)"
    by metis
  then show ?thesis
    unfolding conjunct1 [OF demoGoal_mock] demoGoal_actions by simp
qed

text \<open>
  Claim C2, amended.  With no API credential \<open>analyzeScreen\<close> returns the fallback analysis
  of the goal without calling the remote model.  For the demo goal that analysis lists
  five suggested action strings and eight elements, in the order product, add-to-cart,
  coupon, apply, checkout; the classifier's four action descriptions are the first, a
  variant of the second, the third and the fifth of these.
\<close>

theorem C2_fallback_without_credential:
  "analyzeScreen [] remote jsonParse calls imageData demoGoal =
     (Inr (generateMockAnalysis demoGoal), calls)
   \<and> ar_suggestedActions (generateMockAnalysis demoGoal) =
     [''Click on first product under $50'', ''Click Add to Cart'', ''Enter coupon code'',
      ''Click Apply'', ''Proceed to checkout as guest'']
   \<and> map el_id (ar_elements (generateMockAnalysis demoGoal)) =
     [''prod-1'', ''prod-2'', ''add-cart-btn'', ''coupon-input'', ''apply-coupon-btn'',
      ''checkout-btn'', ''guest-checkout'', ''nav-cart'']
   \<and> map act_description (generateActionsFromGoal demoGoal) =
     [''Click on first product under $50'', ''Click Add to Cart button'', ''Enter coupon code'',
      ''Proceed to checkout as guest'']"
  using demoGoal_mock unfolding demoGoal_actions by (simp add: analyzeScreen_def)

section \<open>Verification: the oracle adapter\<close>

lemma dropWhile_neq_Nil: "dropWhile (\<lambda>c. c \<noteq> x) s = [] \<longleftrightarrow> x \<notin> set s"
  by (induction s) auto

lemma dropWhile_neq_decomp:
  "x \<in> set s \<Longrightarrow> \<exists>a r. s = a @ x # r \<and> dropWhile (\<lambda>c. c \<noteq> x) s = x # r"
proof (induction s)
  case Nil
  then show ?case by simp
next
  case (Cons y s)
  show ?case
  proof (cases "y = x")
    case True
    then have "y # s = [] @ x # s \<and> dropWhile (\<lambda>c. c \<noteq> x) (y # s) = x # s" by simp
    then show ?thesis by blast
  next
    case False
    with Cons obtain a r where "s = a @ x # r" "dropWhile (\<lambda>c. c \<noteq> x) s = x # r" by auto
    with False have "y # s = (y # a) @ x # r \<and> dropWhile (\<lambda>c. c \<noteq> x) (y # s) = x # r" by simp
    then show ?thesis by blast
  qed
qed

lemma dropWhile_neq_keeps:
  "set rest \<subseteq> set (tl (dropWhile (\<lambda>c. c \<noteq> x) (a @ x # rest)))"
  by (induction a) auto



lemma nested_if_None:
  "((if A then None else if B then None else Some x) = None) = (A \<or> B)"
  by simp

lemma jsonMatch_unfold:
  "jsonMatch t =
     (if dropWhile (\<lambda>c. c \<noteq> CHR ''{'') t = [] then None
      else if rev (dropWhile (\<lambda>c. c \<noteq> CHR ''}'')
                 (rev (tl (dropWhile (\<lambda>c. c \<noteq> CHR ''{'') t)))) = [] then None
      else Some (CHR ''{'' # rev (dropWhile (\<lambda>c. c \<noteq> CHR ''}'')
                 (rev (tl (dropWhile (\<lambda>c. c \<noteq> CHR ''{'') t))))))"
  by (simp only: jsonMatch_def Let_def)

lemma jsonMatch_None_conv:
  "jsonMatch t = None \<longleftrightarrow>
     CHR ''{'' \<notin> set t \<or> CHR ''}'' \<notin> set (tl (dropWhile (\<lambda>c. c \<noteq> CHR ''{'') t))"
proof -
  have "jsonMatch t = None \<longleftrightarrow>
          dropWhile (\<lambda>c. c \<noteq> CHR ''{'') t = [] \<or>
          rev (dropWhile (\<lambda>c. c \<noteq> CHR ''}'')
                 (rev (tl (dropWhile (\<lambda>c. c \<noteq> CHR ''{'') t)))) = []"
    unfolding jsonMatch_unfold by (rule nested_if_None)
  also have "\<dots> \<longleftrightarrow>
     CHR ''{'' \<notin> set t \<or> CHR ''}'' \<notin> set (tl (dropWhile (\<lambda>c. c \<noteq> CHR ''{'') t))"
    by (simp only: rev_is_Nil_conv dropWhile_neq_Nil set_rev)
  finally show ?thesis .
qed

lemma jsonMatch_block_found:
  assumes t: "t = a @ CHR ''{'' # b @ CHR ''}'' # c"
  shows "jsonMatch t \<noteq> None"
proof -
  have "set (b @ CHR ''}'' # c) \<subseteq> set (tl (dropWhile (\<lambda>c. c \<noteq> CHR ''{'') t))"
    unfolding t by (rule dropWhile_neq_keeps)
  then have "CHR ''}'' \<in> set (tl (dropWhile (\<lambda>c. c \<noteq> CHR ''{'') t))"
    by auto
  moreover have "CHR ''{'' \<in> set t" unfolding t by simp
  ultimately show ?thesis unfolding jsonMatch_None_conv by simp
qed

lemma jsonMatch_found_block:
  assumes "jsonMatch t \<noteq> None"
  shows "\<exists>a b c. t = a @ CHR ''{'' # b @ CHR ''}'' # c"
proof -
  from assms have m: "CHR ''{'' \<in> set t"
    and k: "CHR ''}'' \<in> set (tl (dropWhile (\<lambda>c. c \<noteq> CHR ''{'') t))"
    unfolding jsonMatch_None_conv by simp_all
  from dropWhile_neq_decomp [OF m] obtain a r where s: "t = a @ CHR ''{'' # r"
      and d: "dropWhile (\<lambda>c. c \<noteq> CHR ''{'') t = CHR ''{'' # r"
    by blast
  from k have "CHR ''}'' \<in> set r" unfolding d by simp
  from split_list [OF this] obtain b c where "r = b @ CHR ''}'' # c" by blast
  then show ?thesis using s by blast
qed

text \<open>
  The model of the regular expression is adequate: there is no match exactly when the
  text has no opening brace with a closing brace somewhere behind it, and a match
  starts at the first opening brace and ends at the last closing brace.
\<close>

lemma jsonMatch_None_iff:
  "jsonMatch t = None \<longleftrightarrow> \<not> (\<exists>a b c. t = a @ CHR ''{'' # b @ CHR ''}'' # c)"
proof
  assume none: "jsonMatch t = None"
  show "\<not> (\<exists>a b c. t = a @ CHR ''{'' # b @ CHR ''}'' # c)"
  proof
    assume "\<exists>a b c. t = a @ CHR ''{'' # b @ CHR ''}'' # c"
    then obtain a b c where "t = a @ CHR ''{'' # b @ CHR ''}'' # c" by blast
    from jsonMatch_block_found [OF this] none show False by simp
  qed
next
  assume no_block: "\<not> (\<exists>a b c. t = a @ CHR ''{'' # b @ CHR ''}'' # c)"
  show "jsonMatch t = None"
  proof (rule ccontr)
    assume "jsonMatch t \<noteq> None"
    from jsonMatch_found_block [OF this] no_block show False by simp
  qed
qed

lemma jsonMatch_Some:
  assumes "jsonMatch t = Some block"
  shows "\<exists>a b c. t = a @ block @ c \<and> block = CHR ''{'' # b @ [CHR ''}''] \<and>
           CHR ''{'' \<notin> set a \<and> CHR ''}'' \<notin> set c"
proof -
  from assms have ne: "dropWhile (\<lambda>c. c \<noteq> CHR ''{'') t \<noteq> []"
    by (auto simp: jsonMatch_def Let_def split: if_splits)
  let ?a = "takeWhile (\<lambda>c. c \<noteq> CHR ''{'') t"
  let ?d = "dropWhile (\<lambda>c. c \<noteq> CHR ''{'') t"
  have hd: "hd ?d = CHR ''{''" using ne hd_dropWhile [of "\<lambda>c. c \<noteq> CHR ''{''" t] by simp
  then have d: "?d = CHR ''{'' # tl ?d" using ne by (metis list.collapse)
  let ?r = "tl ?d"
  let ?c = "rev (takeWhile (\<lambda>c. c \<noteq> CHR ''}'') (rev ?r))"
  let ?body = "rev (dropWhile (\<lambda>c. c \<noteq> CHR ''}'') (rev ?r))"
  have r: "?r = ?body @ ?c"
    by (metis rev_append rev_rev_ident takeWhile_dropWhile_id)
  from assms ne have body: "?body \<noteq> []" and block: "block = CHR ''{'' # ?body"
    by (auto simp: jsonMatch_def Let_def split: if_splits)
  have "last ?body = CHR ''}''"
    using body hd_dropWhile [of "\<lambda>c. c \<noteq> CHR ''}''" "rev ?r"]
    by (simp add: last_rev)
  then have body2: "?body = butlast ?body @ [CHR ''}'']"
    using body by (metis append_butlast_last_id)
  have na: "CHR ''{'' \<notin> set ?a" by (auto dest: set_takeWhileD)
  have nc: "CHR ''}'' \<notin> set ?c" by (auto dest: set_takeWhileD)
  have "t = ?a @ ?d" by simp
  also have "\<dots> = ?a @ CHR ''{'' # ?body @ ?c" using d r by metis
  finally have "t = ?a @ block @ ?c" using block by simp
  moreover have "block = CHR ''{'' # butlast ?body @ [CHR ''}'']" using block body2 by simp
  ultimately show ?thesis using na nc by blast
qed

lemma jsonMatch_prose: "jsonMatch ''Sorry, I cannot analyze this image.'' = None"
  by (simp add: jsonMatch_def)

lemma jsonMatch_broken:
  "jsonMatch ''Here you go: {elements: oops} done'' = Some ''{elements: oops}''"
  by (simp add: jsonMatch_def)

text \<open>
  Claim C7.  \<open>analyzeScreen\<close> never rejects, and makes at most one remote call.  Without
  an API key it returns the fallback analysis and makes no call; with a key it returns
  the fallback analysis after its single call whenever that call throws, or the response
  text holds no brace-delimited block, or \<open>JSON.parse\<close> throws on the block.
\<close>

theorem C7_analyzeScreen_total_single_attempt:
  "(\<exists>res. fst (analyzeScreen API_KEY remote jsonParse calls imageData goal) = Inr res)
   \<and> snd (analyzeScreen API_KEY remote jsonParse calls imageData goal) \<le> Suc calls
   \<and> (API_KEY = [] \<longrightarrow>
        analyzeScreen API_KEY remote jsonParse calls imageData goal =
          (Inr (generateMockAnalysis goal), calls))
   \<and> (API_KEY \<noteq> [] \<and>
        ((\<exists>e. remote calls = Inl e) \<or>
         (\<exists>t. remote calls = Inr t \<and> jsonMatch t = None) \<or>
         (\<exists>t block e. remote calls = Inr t \<and> jsonMatch t = Some block \<and>
                      jsonParse block = Inl e)) \<longrightarrow>
        analyzeScreen API_KEY remote jsonParse calls imageData goal =
          (Inr (generateMockAnalysis goal), Suc calls))"
  by (auto simp: analyzeScreen_def analyzeScreenTry_def
           split: sum.splits option.splits prod.splits)

theorem C7_analyzeScreen_total_single_attempt_witness:
  "analyzeScreen [] remoteDown rejectAll 0 ''data:image/png;base64,AAAA'' demoGoal =
     (Inr (generateMockAnalysis demoGoal), 0)
   \<and> analyzeScreen ''key'' remoteDown rejectAll 0 ''data:image/png;base64,AAAA'' demoGoal =
     (Inr (generateMockAnalysis demoGoal), 1)
   \<and> analyzeScreen ''key'' remoteProse rejectAll 0 ''data:image/png;base64,AAAA'' demoGoal =
     (Inr (generateMockAnalysis demoGoal), 1)
   \<and> analyzeScreen ''key'' remoteBroken rejectAll 0 ''data:image/png;base64,AAAA'' demoGoal =
     (Inr (generateMockAnalysis demoGoal), 1)"
  using C7_analyzeScreen_total_single_attempt
          [of "[]" remoteDown rejectAll 0 "''data:image/png;base64,AAAA''" demoGoal]
        C7_analyzeScreen_total_single_attempt
          [of "''key''" remoteDown rejectAll 0 "''data:image/png;base64,AAAA''" demoGoal]
        C7_analyzeScreen_total_single_attempt
          [of "''key''" remoteProse rejectAll 0 "''data:image/png;base64,AAAA''" demoGoal]
        C7_analyzeScreen_total_single_attempt
          [of "''key''" remoteBroken rejectAll 0 "''data:image/png;base64,AAAA''" demoGoal]
  by (simp add: remoteDown_def remoteProse_def remoteBroken_def rejectAll_def
        jsonMatch_prose jsonMatch_broken)

section \<open>Verification: the Artifact Generator\<close>

lemma generateSummary_clock:
  "generateSummary t1 goal actions = generateSummary t2 goal actions \<longleftrightarrow> t1 = t2"
  by (simp add: generateSummary_def)

text \<open>
  Claim C1, as stated, fails: two calls of \<open>generateSummary\<close> on the same goal and action
  list, one second apart, return different texts.
\<close>

theorem C1_summary_depends_on_clock:
  "generateSummary ''2026-11-02T10:00:00.000Z'' demoGoal (generateActionsFromGoal demoGoal) \<noteq>
   generateSummary ''2026-11-02T10:00:01.000Z'' demoGoal (generateActionsFromGoal demoGoal)"
  by (simp add: generateSummary_def)

text \<open>
  Claim C1, amended.  The script and the run log are functions of the action list and of
  the log alone.  The summary also embeds the time of the call in its last line: it is
  a fixed text, determined by goal and actions, followed by the time stamp, so two
  generations of the artifacts agree exactly when they read the same time.
\<close>

theorem C1_artifacts_pure_up_to_clock:
  "map art_type (generateArtifacts now goal actions logs) = [Summary, PlaywrightScript, RunLog]
   \<and> art_content (generateArtifacts now goal actions logs ! 1) = generatePlaywrightScript actions
   \<and> art_content (generateArtifacts now goal actions logs ! 2) = generateRunLog logs
   \<and> (generateArtifacts t1 goal actions logs = generateArtifacts t2 goal actions logs
        \<longleftrightarrow> t1 = t2)
   \<and> (\<exists>body. \<forall>t. art_content (generateArtifacts t goal actions logs ! 0) = body @ t @ nl)"
proof (intro conjI)
  show "\<exists>body. \<forall>t. art_content (generateArtifacts t goal actions logs ! 0) = body @ t @ nl"
    unfolding generateArtifacts_def generateSummary_def
    by (simp del: append_assoc add: append_assoc [symmetric])
qed (simp_all add: generateArtifacts_def generateSummary_clock)

section \<open>Verification: the step loop of the user interface\<close>

lemma markExecuting_length [simp]:
  "length (as_actions (markExecuting i st)) = length (as_actions st)"
  by (simp add: markExecuting_def)

lemma markResult_length [simp]:
  "length (as_actions (markResult ts i a ok st)) = length (as_actions st)"
  by (simp add: markResult_def)

lemma markExecuting_nth:
  "j < length (as_actions st) \<Longrightarrow>
   as_actions (markExecuting i st) ! j =
     (if j = i then (as_actions st ! j)\<lparr>act_status := Executing\<rparr> else as_actions st ! j)"
  by (simp add: markExecuting_def nth_enumerate_eq)

lemma markResult_nth:
  "j < length (as_actions st) \<Longrightarrow>
   as_actions (markResult ts i a ok st) ! j =
     (if j = i
      then (as_actions st ! j)\<lparr>act_status := (if ok then Completed else Failed),
             act_reason := Some (if ok then ''Action completed successfully''
                                 else ''Element not found'')\<rparr>
      else as_actions st ! j)"
  by (simp add: markResult_def nth_enumerate_eq)

lemma markExecuting_currentStep [simp]: "as_currentStep (markExecuting i st) = Some i"
  by (simp add: markExecuting_def)

lemma executeSteps_indices:
  "map fst (executeSteps rand clock i rest st) = [i..<i + length rest]"
  by (induction rest arbitrary: i st) (simp_all add: Let_def upt_rec)

lemma executeSteps_nonempty: "executeSteps rand clock i rest st = [] \<longleftrightarrow> rest = []"
  by (cases rest) (simp_all add: Let_def)

lemma executeSteps_inv:
  assumes "length (as_actions st) = i + length rest"
      and "\<forall>j<i. terminal (act_status (as_actions st ! j))"
      and "\<forall>j<i + length rest. act_status (as_actions st ! j) \<noteq> Executing"
  shows "list_all (sequentialStep rand (i + length rest)) (executeSteps rand clock i rest st)"
  using assms
proof (induction rest arbitrary: i st)
  case Nil
  then show ?case by simp
next
  case (Cons a rest)
  let ?n = "i + length (a # rest)"
  let ?b = "markExecuting i st"
  let ?e = "markResult (clock (Suc i)) i a (rand i) ?b"
  have len: "length (as_actions st) = ?n" using Cons.prems(1) by simp
  have step: "sequentialStep rand ?n (i, ?b, ?e)"
    unfolding sequentialStep_def using Cons.prems len
    by (auto simp: markExecuting_nth markResult_nth terminal_def)
  have e_len: "length (as_actions ?e) = Suc i + length rest" using len by simp
  have e_term: "\<forall>j<Suc i. terminal (act_status (as_actions ?e ! j))"
    using Cons.prems(2) len
    by (auto simp: markExecuting_nth markResult_nth terminal_def less_Suc_eq)
  have e_nox: "\<forall>j<Suc i + length rest. act_status (as_actions ?e ! j) \<noteq> Executing"
    using Cons.prems(3) len
    by (auto simp: markExecuting_nth markResult_nth)
  have "list_all (sequentialStep rand (Suc i + length rest))
          (executeSteps rand clock (Suc i) rest ?e)"
    by (rule Cons.IH [OF e_len e_term e_nox])
  then show ?case using step by (simp add: Let_def)
qed

lemma executeSteps_last:
  assumes "length (as_actions st) = i + length rest"
      and "\<forall>j<i. terminal (act_status (as_actions st ! j))"
      and "rest \<noteq> []"
  shows "length (as_actions (snd (snd (last (executeSteps rand clock i rest st))))) =
           i + length rest
         \<and> (\<forall>j<i + length rest.
              terminal (act_status
                (as_actions (snd (snd (last (executeSteps rand clock i rest st)))) ! j)))"
  using assms
proof (induction rest arbitrary: i st)
  case Nil
  then show ?case by simp
next
  case (Cons a rest)
  let ?b = "markExecuting i st"
  let ?e = "markResult (clock (Suc i)) i a (rand i) ?b"
  have len: "length (as_actions st) = Suc (i + length rest)" using Cons.prems(1) by simp
  have e_len: "length (as_actions ?e) = Suc i + length rest" using len by simp
  have e_term: "\<forall>j<Suc i. terminal (act_status (as_actions ?e ! j))"
    using Cons.prems(2) len
    by (auto simp: markExecuting_nth markResult_nth terminal_def less_Suc_eq)
  show ?case
  proof (cases "rest = []")
    case True
    then show ?thesis using e_term e_len by (simp add: Let_def)
  next
    case False
    then show ?thesis
      using Cons.IH [OF e_len e_term False] by (simp add: Let_def executeSteps_nonempty)
  qed
qed

lemma classifier_plan_ready:
  "list_all (\<lambda>a. act_status a \<noteq> Executing) (generateActionsFromGoal goal)
   \<and> sorted_wrt (<) (map act_order (generateActionsFromGoal goal))"
  unfolding generateActionsFromGoal_def Let_def
  by (simp split: if_splits)

lemma handleExecute_steps:
  "fst (handleExecute rand clock agentState) =
     executeSteps rand clock 0 (as_actions agentState)
       (agentState\<lparr>as_status := PhaseExecuting, as_currentStep := Some 0,
          as_logs := as_logs agentState @
               [\<lparr>log_timestamp = clock 0, log_action = ''Starting execution'',
                 log_status = Info, log_details = None\<rparr>]\<rparr>)"
  by (simp add: handleExecute_def Let_def)

lemma handleExecute_indices:
  "map fst (fst (handleExecute rand clock agentState)) = [0..<length (as_actions agentState)]"
  by (simp add: handleExecute_steps executeSteps_indices)

lemma handleExecute_sequential:
  assumes "list_all (\<lambda>a. act_status a \<noteq> Executing) (as_actions agentState)"
  shows "list_all (sequentialStep rand (length (as_actions agentState)))
           (fst (handleExecute rand clock agentState))"
proof -
  let ?started = "agentState\<lparr>as_status := PhaseExecuting, as_currentStep := Some 0,
          as_logs := as_logs agentState @
               [\<lparr>log_timestamp = clock 0, log_action = ''Starting execution'',
                 log_status = Info, log_details = None\<rparr>]\<rparr>"
  have nox: "\<forall>j<0 + length (as_actions agentState).
               act_status (as_actions ?started ! j) \<noteq> Executing"
    using assms by (simp add: list_all_length)
  have "list_all (sequentialStep rand (0 + length (as_actions agentState)))
           (executeSteps rand clock 0 (as_actions agentState) ?started)"
    by (rule executeSteps_inv) (use nox in simp_all)
  then show ?thesis by (simp add: handleExecute_steps)
qed

lemma handleExecute_final_terminal:
  "list_all (\<lambda>a. terminal (act_status a))
     (as_actions (snd (handleExecute rand clock agentState)))"
proof (cases "as_actions agentState = []")
  case True
  then show ?thesis by (simp add: handleExecute_def Let_def)
next
  case False
  let ?started = "agentState\<lparr>as_status := PhaseExecuting, as_currentStep := Some 0,
          as_logs := as_logs agentState @
               [\<lparr>log_timestamp = clock 0, log_action = ''Starting execution'',
                 log_status = Info, log_details = None\<rparr>]\<rparr>"
  let ?steps = "executeSteps rand clock 0 (as_actions agentState) ?started"
  let ?looped = "snd (snd (last ?steps))"
  have "length (as_actions ?looped) = 0 + length (as_actions agentState)
        \<and> (\<forall>j<0 + length (as_actions agentState).
              terminal (act_status (as_actions ?looped ! j)))"
    by (rule executeSteps_last) (use False in simp_all)
  moreover have "as_actions (snd (handleExecute rand clock agentState)) = as_actions ?looped"
    using False by (simp add: handleExecute_def Let_def executeSteps_nonempty)
  ultimately show ?thesis by (simp add: list_all_length)
qed

lemma handleExecute_order:
  "map (\<lambda>step. act_order (as_actions agentState ! fst step))
       (fst (handleExecute rand clock agentState))
     = map act_order (as_actions agentState)"
proof -
  have "map (\<lambda>step. act_order (as_actions agentState ! fst step))
            (fst (handleExecute rand clock agentState))
        = map (\<lambda>k. act_order (as_actions agentState ! k))
            (map fst (fst (handleExecute rand clock agentState)))"
    by (simp add: comp_def)
  also have "\<dots> = map (\<lambda>k. act_order (as_actions agentState ! k))
                    [0..<length (as_actions agentState)]"
    by (simp only: handleExecute_indices)
  also have "\<dots> = map act_order
                    (map (\<lambda>k. as_actions agentState ! k) [0..<length (as_actions agentState)])"
    by (simp add: comp_def)
  also have "\<dots> = map act_order (as_actions agentState)"
    by (simp only: map_nth)
  finally show ?thesis .
qed

section \<open>Verification: the Playwright execution engine\<close>

lemma executeAction_returns:
  "\<exists>entry w'. executeAction ar clk page action w = (Inr entry, w') \<and>
      log_action entry = act_description action"
  by (auto simp: executeAction_def Let_def split: option.splits prod.splits sum.splits)

lemma workflowLoop_logs:
  "workflowLoop ar clk page onStep i actions logs w = (Inr logs', w') \<Longrightarrow>
   map log_action logs' = map log_action logs @ map act_description actions"
proof (induction actions arbitrary: i logs w)
  case Nil
  then show ?case by simp
next
  case (Cons a actions)
  obtain r0 w1 where cb: "(case onStep of None \<Rightarrow> (Inr (), w) | Some f \<Rightarrow> f i a w) = (r0, w1)"
    by (cases "(case onStep of None \<Rightarrow> (Inr (), w) | Some f \<Rightarrow> f i a w)")
  obtain entry w2 where ea: "executeAction ar clk page a w1 = (Inr entry, w2)"
    and la: "log_action entry = act_description a"
    using executeAction_returns [of ar clk page a w1] by blast
  from Cons.prems cb ea obtain w3 where
    "workflowLoop ar clk page onStep (Suc i) actions (logs @ [entry]) w3 = (Inr logs', w')"
    by (auto split: sum.splits option.splits prod.splits if_splits)
  from Cons.IH [OF this] la show ?case by simp
qed

lemma workflowLoop_returns:
  assumes "\<forall>f i a w. onStep = Some f \<longrightarrow> fst (f i a w) = Inr ()"
      and "\<forall>p w. page = Some p \<longrightarrow> fst (pg_waitForTimeout p 500 w) = Inr ()"
  shows "\<exists>logs' w'. workflowLoop ar clk page onStep i actions logs w = (Inr logs', w')"
proof (induction actions arbitrary: i logs w)
  case Nil
  then show ?case by simp
next
  case (Cons a actions)
  have "fst (case onStep of None \<Rightarrow> (Inr (), w) | Some f \<Rightarrow> f i a w) = Inr ()"
    using assms(1) by (cases onStep) auto
  then obtain w1 where
    cb: "(case onStep of None \<Rightarrow> (Inr (), w) | Some f \<Rightarrow> f i a w) = (Inr (), w1)"
    by (metis prod.collapse)
  obtain entry w2 where ea: "executeAction ar clk page a w1 = (Inr entry, w2)"
    using executeAction_returns [of ar clk page a w1] by blast
  show ?case
  proof (cases "log_status entry = Error \<and> page \<noteq> None")
    case True
    then obtain p where p: "page = Some p" by auto
    have "fst (pg_waitForTimeout p 500 w2) = Inr ()"
      using assms(2) p by blast
    then obtain w3 where wt: "pg_waitForTimeout p 500 w2 = (Inr (), w3)"
      by (metis prod.collapse)
    from Cons.IH [of "Suc i" "logs @ [entry]" w3] True p wt cb ea show ?thesis
      by simp
  next
    case False
    from Cons.IH [of "Suc i" "logs @ [entry]" w2] False cb ea show ?thesis
      by (auto split: option.splits)
  qed
qed

text \<open>
  Whenever \<open>executeWorkflow\<close> returns a result, the log holds one entry per action, in
  array order, failed steps included, and \<open>success\<close> says that no entry is an error.
\<close>

lemma executeWorkflow_result:
  assumes "executeWorkflow ar clk page onStep actions w = (Inr res, w')"
  shows "map log_action (er_logs res) = map act_description actions"
    and "er_success res \<longleftrightarrow> (\<forall>l \<in> set (er_logs res). log_status l \<noteq> Error)"
  using assms workflowLoop_logs [of ar clk page onStep 0 actions "[]" w]
  by (auto simp: executeWorkflow_def list_all_iff split: prod.splits sum.splits)

text \<open>
  It does return a result when neither the callback nor the recovery wait throws,
  whatever the steps themselves do.
\<close>

lemma executeWorkflow_returns:
  assumes "\<forall>f i a w. onStep = Some f \<longrightarrow> fst (f i a w) = Inr ()"
      and "\<forall>p w. page = Some p \<longrightarrow> fst (pg_waitForTimeout p 500 w) = Inr ()"
  shows "\<exists>res w'. executeWorkflow ar clk page onStep actions w = (Inr res, w')"
  using workflowLoop_returns [OF assms, of ar clk 0 actions "[]" w]
  by (auto simp: executeWorkflow_def split: prod.splits sum.splits)

text \<open>
  On the browser double every driver call appends itself to the trace and its outcome
  depends on the call alone; so does, step by step, everything built from such calls.
\<close>

lemma trySelectors_scripted:
  "\<exists>r cs. \<forall>w. trySelectors (scriptedPage found fails) sels w = (r, w @ cs)"
proof (induction sels)
  case Nil
  have "\<forall>w. trySelectors (scriptedPage found fails) [] w = (None, w @ [])" by simp
  then show ?case by blast
next
  case (Cons sel sels)
  then obtain r cs where ih: "\<And>w. trySelectors (scriptedPage found fails) sels w = (r, w @ cs)"
    by blast
  show ?case
  proof (cases "\<not> fails (Query sel) \<and> found sel")
    case True
    then have "\<forall>w. trySelectors (scriptedPage found fails) (sel # sels) w = (Some sel, w @ [Query sel])"
      by (simp add: scriptedPage_def)
    then show ?thesis by blast
  next
    case False
    then have "\<forall>w. trySelectors (scriptedPage found fails) (sel # sels) w = (r, w @ (Query sel # cs))"
      using ih by (auto simp: scriptedPage_def)
    then show ?thesis by blast
  qed
qed

lemma performAction_scripted:
  "\<exists>r cs. \<forall>w. performAction ar (scriptedPage found fails) action w = (r, w @ cs)"
proof -
  obtain sr scs where ts: "\<And>w. trySelectors (scriptedPage found fails)
        (case act_target action of None \<Rightarrow> [] | Some t \<Rightarrow> selectorsFor t) w = (sr, w @ scs)"
    using trySelectors_scripted [of found fails] by blast
  have rs: "\<exists>r cs. \<forall>w. resolveSelector (scriptedPage found fails) action w = (r, w @ cs)"
  proof (cases "truthy (case act_target action of None \<Rightarrow> None | Some t \<Rightarrow> el_selector t)")
    case (Some sel)
    then have "\<forall>w. resolveSelector (scriptedPage found fails) action w = (Inr (Some sel), w @ [])"
      by (simp add: resolveSelector_def)
    then show ?thesis by blast
  next
    case None
    show ?thesis
    proof (cases "act_target action")
      case n: None
      have "\<forall>w. resolveSelector (scriptedPage found fails) action w =
          (Inl (ErrorObj ''Cannot read properties of undefined (reading 'text')''), w @ [])"
        using None n by (simp add: resolveSelector_def findElement_def)
      then show ?thesis by blast
    next
      case (Some t)
      have "\<forall>w. resolveSelector (scriptedPage found fails) action w = (Inr sr, w @ scs)"
        using None Some ts by (simp add: resolveSelector_def findElement_def)
      then show ?thesis by blast
    qed
  qed
  then obtain rr rcs where rsw:
    "\<And>w. resolveSelector (scriptedPage found fails) action w = (rr, w @ rcs)" by blast
  show ?thesis
  proof (cases "act_type action")
    case Click
    show ?thesis
    proof (cases rr)
      case (Inl e)
      then have "\<forall>w. performAction ar (scriptedPage found fails) action w = (Inl e, w @ rcs)"
        using Click rsw by (simp add: performAction_def)
      then show ?thesis by blast
    next
      case (Inr selector)
      show ?thesis
      proof (cases "truthy selector")
        case (Some sel)
        then have "\<forall>w. performAction ar (scriptedPage found fails) action w =
            (if fails (ClickSelector sel) then Inl targetClosed else Inr (), w @ (rcs @ [ClickSelector sel]))"
          using Click rsw Inr by (simp add: performAction_def scriptedPage_def)
        then show ?thesis by blast
      next
        case None
        show ?thesis
        proof (cases "act_target action")
          case n: None
          then have "\<forall>w. performAction ar (scriptedPage found fails) action w = (Inr (), w @ rcs)"
            using Click rsw Inr None by (simp add: performAction_def)
          then show ?thesis by blast
        next
          case (Some t)
          then have "\<exists>cx cy. \<forall>w. performAction ar (scriptedPage found fails) action w =
            (if fails (MouseClick cx cy) then Inl targetClosed else Inr (), w @ (rcs @ [MouseClick cx cy]))"
            using Click rsw Inr None by (simp add: performAction_def scriptedPage_def Let_def)
          then show ?thesis by blast
        qed
      qed
    qed
  next
    case Type
    show ?thesis
    proof (cases rr)
      case (Inl e)
      then have "\<forall>w. performAction ar (scriptedPage found fails) action w = (Inl e, w @ rcs)"
        using Type rsw by (simp add: performAction_def)
      then show ?thesis by blast
    next
      case (Inr selector)
      show ?thesis
      proof (cases "truthy selector")
        case None
        then have "\<forall>w. performAction ar (scriptedPage found fails) action w = (Inr (), w @ rcs)"
          using Type rsw Inr by (simp add: performAction_def)
        then show ?thesis by blast
      next
        case (Some sel)
        show ?thesis
        proof (cases "truthy (act_value action)")
          case None
          then have "\<forall>w. performAction ar (scriptedPage found fails) action w = (Inr (), w @ rcs)"
            using Type rsw Inr Some by (simp add: performAction_def)
          then show ?thesis by blast
        next
          case v: (Some v)
          then have "\<forall>w. performAction ar (scriptedPage found fails) action w =
             (if fails (Fill sel v) then Inl targetClosed else Inr (), w @ (rcs @ [Fill sel v]))"
            using Type rsw Inr Some by (simp add: performAction_def scriptedPage_def)
          then show ?thesis by blast
        qed
      qed
    qed
  next
    case Select
    then have "\<forall>w. performAction ar (scriptedPage found fails) action w = (Inr (), w @ [])"
      by (simp add: performAction_def)
    then show ?thesis by blast
  next
    case Wait
    then have "\<forall>w. performAction ar (scriptedPage found fails) action w =
       (if fails (WaitForTimeout 1000) then Inl targetClosed else Inr (), w @ [WaitForTimeout 1000])"
      by (simp add: performAction_def scriptedPage_def)
    then show ?thesis by blast
  next
    case Navigate
    then have "\<forall>w. performAction ar (scriptedPage found fails) action w = (Inr (), w @ [])"
      by (simp add: performAction_def)
    then show ?thesis by blast
  next
    case Scroll
    then have "\<forall>w. performAction ar (scriptedPage found fails) action w =
       (if fails (ScrollBy (Finite 0) (Finite 300)) then Inl targetClosed else Inr (),
        w @ [ScrollBy (Finite 0) (Finite 300)])"
      by (simp add: performAction_def scriptedPage_def)
    then show ?thesis by blast
  qed
qed

lemma executeAction_scripted:
  "\<exists>st cs. \<forall>w. \<exists>entry.
      executeAction ar tickClock (Some (scriptedPage found fails)) action w = (Inr entry, w @ cs)
      \<and> log_status entry = st"
proof -
  obtain r cs where pa: "\<And>w. performAction ar (scriptedPage found fails) action w = (r, w @ cs)"
    using performAction_scripted by blast
  show ?thesis
  proof (cases r)
    case (Inl e)
    then have "\<forall>w. \<exists>entry.
      executeAction ar tickClock (Some (scriptedPage found fails)) action w = (Inr entry, w @ cs)
      \<and> log_status entry = Error"
      using pa by (simp add: executeAction_def Let_def)
    then show ?thesis by blast
  next
    case (Inr u)
    then have "\<forall>w. \<exists>entry.
      executeAction ar tickClock (Some (scriptedPage found fails)) action w = (Inr entry, w @ cs)
      \<and> log_status entry = Success"
      using pa by (simp add: executeAction_def Let_def)
    then show ?thesis by blast
  qed
qed

lemma executeAction_scripted_segment:
  "\<exists>entry. executeAction ar tickClock (Some (scriptedPage found fails)) action w =
      (Inr entry, w @ snd (executeAction ar tickClock (Some (scriptedPage found fails)) action []))
    \<and> Inr (log_status entry) =
        map_sum id log_status
          (fst (executeAction ar tickClock (Some (scriptedPage found fails)) action []))"
proof -
  obtain st cs where all: "\<And>w. \<exists>entry.
      executeAction ar tickClock (Some (scriptedPage found fails)) action w = (Inr entry, w @ cs)
      \<and> log_status entry = st"
    using executeAction_scripted by blast
  from all [of "[]"] obtain e0 where
    e0: "executeAction ar tickClock (Some (scriptedPage found fails)) action [] = (Inr e0, cs)"
    and s0: "log_status e0 = st" by auto
  from all [of w] obtain entry where
    e: "executeAction ar tickClock (Some (scriptedPage found fails)) action w = (Inr entry, w @ cs)"
    and s: "log_status entry = st" by auto
  show ?thesis using e s e0 s0 by simp
qed

lemma workflowLoop_scripted_trace:
  assumes "\<not> fails (WaitForTimeout 500)"
  shows "\<exists>logs'. workflowLoop ar tickClock (Some (scriptedPage found fails)) (Some recordStep)
            i actions logs w =
          (Inr logs', w @ concat (map (stepSegment ar found fails) (enumerate i actions)))"
proof (induction actions arbitrary: i logs w)
  case Nil
  then show ?case by simp
next
  case (Cons a actions)
  let ?P = "scriptedPage found fails"
  let ?w1 = "w @ [StepCallback i (act_order a)]"
  let ?cs = "snd (executeAction ar tickClock (Some ?P) a [])"
  let ?wait = "if map_sum id log_status (fst (executeAction ar tickClock (Some ?P) a [])) =
                  Inr Error
               then [WaitForTimeout 500] else []"
  obtain entry where ea: "executeAction ar tickClock (Some ?P) a ?w1 = (Inr entry, ?w1 @ ?cs)"
    and st: "Inr (log_status entry) =
               map_sum id log_status (fst (executeAction ar tickClock (Some ?P) a []))"
    using executeAction_scripted_segment [of ar found fails a ?w1] by blast
  have wt: "pg_waitForTimeout ?P 500 (?w1 @ ?cs) = (Inr (), ?w1 @ ?cs @ [WaitForTimeout 500])"
    using assms by (simp add: scriptedPage_def)
  have err: "log_status entry = Error \<longleftrightarrow>
               map_sum id log_status (fst (executeAction ar tickClock (Some ?P) a [])) = Inr Error"
    using st by (metis sum.inject(2))
  have step: "workflowLoop ar tickClock (Some ?P) (Some recordStep) i (a # actions) logs w =
              workflowLoop ar tickClock (Some ?P) (Some recordStep) (Suc i) actions
                (logs @ [entry]) (?w1 @ ?cs @ ?wait)"
    using ea wt err by (simp add: recordStep_def)
  have seg: "concat (map (stepSegment ar found fails) (enumerate i (a # actions))) =
             StepCallback i (act_order a) # ?cs @ ?wait @
             concat (map (stepSegment ar found fails) (enumerate (Suc i) actions))"
    by (simp add: stepSegment_def)
  from Cons.IH [of "Suc i" "logs @ [entry]" "?w1 @ ?cs @ ?wait"]
  obtain logs' where
    "workflowLoop ar tickClock (Some ?P) (Some recordStep) (Suc i) actions (logs @ [entry])
        (?w1 @ ?cs @ ?wait) =
     (Inr logs', (?w1 @ ?cs @ ?wait) @
        concat (map (stepSegment ar found fails) (enumerate (Suc i) actions)))"
    by blast
  then have "workflowLoop ar tickClock (Some ?P) (Some recordStep) i (a # actions) logs w =
     (Inr logs', w @ concat (map (stepSegment ar found fails) (enumerate i (a # actions))))"
    unfolding step seg by simp
  then show ?case by blast
qed

lemma executeWorkflow_scripted_trace:
  assumes "\<not> fails (WaitForTimeout 500)"
  shows "snd (executeWorkflow ar tickClock (Some (scriptedPage found fails)) (Some recordStep)
               actions w) =
          w @ concat (map (stepSegment ar found fails) (enumerate 0 actions)) @ [TakeScreenshot]"
proof -
  from workflowLoop_scripted_trace [of fails ar found 0 actions "[]" w, OF assms]
  obtain logs' where
    "workflowLoop ar tickClock (Some (scriptedPage found fails)) (Some recordStep)
            0 actions [] w =
          (Inr logs', w @ concat (map (stepSegment ar found fails) (enumerate 0 actions)))"
    by blast
  then show ?thesis
    by (simp add: executeWorkflow_def captureScreen_def scriptedPage_def split: prod.splits)
qed

text \<open>
  The loop is sequential for every page and callback: running it over \<open>xs @ ys\<close> is
  running it over \<open>xs\<close> and then, unless that run was rejected, over \<open>ys\<close> from the log
  and the world that the first run left, with the indices continued.
\<close>

lemma workflowLoop_append:
  "workflowLoop ar clk page onStep i (xs @ ys) logs w =
     (case workflowLoop ar clk page onStep i xs logs w of
        (Inl e, w1) \<Rightarrow> (Inl e, w1)
      | (Inr logs1, w1) \<Rightarrow> workflowLoop ar clk page onStep (i + length xs) ys logs1 w1)"
proof (induction xs arbitrary: i logs w)
  case Nil
  then show ?case by simp
next
  case (Cons a xs)
  show ?case
    using Cons.IH by (auto split: prod.splits sum.splits option.splits)
qed

lemma stepSegment_selector_click:
  assumes "sel \<noteq> []"
  shows "stepSegment ar found fails (k, clickOn label sel ord box) =
           StepCallback k ord # ClickSelector sel #
           (if fails (ClickSelector sel) then [WaitForTimeout 500] else [])"
  using assms
  by (simp add: stepSegment_def executeAction_def performAction_def resolveSelector_def
        truthy_def scriptedPage_def tickClock_def clickOn_def Let_def)

lemma trySelectors_nothingFound:
  "trySelectors (scriptedPage nothingFound fails) sels w = (None, w @ map Query sels)"
  by (induction sels arbitrary: w) (auto simp: scriptedPage_def nothingFound_def)

text \<open>A run in which the first click fails, the recovery wait passes, and the second click is made.\<close>

lemma run_recovering:
  "executeWorkflow exactArith tickClock
     (Some (scriptedPage nothingFound (onlyFails (ClickSelector ''#buy'')))) (Some recordStep)
     [clickOn ''Buy'' ''#buy'' 1 pointBox, clickOn ''Pay'' ''#pay'' 2 pointBox] [] =
   (Inr \<lparr>er_success = False,
         er_logs =
           [\<lparr>log_timestamp = ''T2'', log_action = ''Buy'', log_status = Error,
             log_details = Some ''Target page, context or browser has been closed''\<rparr>,
            \<lparr>log_timestamp = ''T5'', log_action = ''Pay'', log_status = Success,
             log_details = Some ''Completed in 1ms''\<rparr>],
         er_screenshot = Some ''data:image/png;base64,''\<rparr>,
    [StepCallback 0 1, ClickSelector ''#buy'', WaitForTimeout 500,
     StepCallback 1 2, ClickSelector ''#pay'', TakeScreenshot])"
  by (simp add: executeWorkflow_def executeAction_def performAction_def resolveSelector_def
      truthy_def scriptedPage_def tickClock_def clickOn_def recordStep_def onlyFails_def
      captureScreen_def targetClosed_def showInt_def showNat.simps digitChar_def Let_def)

lemma run_unsorted:
  "snd (executeWorkflow exactArith tickClock (Some (scriptedPage nothingFound neverFails)) (Some recordStep)
     [clickOn ''Pay'' ''#pay'' 2 pointBox, clickOn ''Buy'' ''#buy'' 1 pointBox] []) =
    [StepCallback 0 2, ClickSelector ''#pay'', StepCallback 1 1, ClickSelector ''#buy'',
     TakeScreenshot]"
  by (simp add: executeWorkflow_def executeAction_def performAction_def resolveSelector_def
      truthy_def scriptedPage_def tickClock_def clickOn_def recordStep_def neverFails_def
      captureScreen_def Let_def)

text \<open>
  Claim C8.  A click action whose target has no usable selector, on a page where none of
  the five selector strategies finds an element, ends in one coordinate click at
  \<open>((x + width / 2) / 100 * 800, (y + height / 2) / 100 * 600)\<close>, the centre of the target's
  bounding box scaled from percent to the assumed 800 by 600 viewport, calculated in the
  arithmetic of the runtime; \<open>executeAction\<close> returns a log entry whether or not that click
  throws.  Nothing is asked of the box or of the arithmetic: the values may be zero,
  negative, infinite or \<open>NaN\<close>, and with width or height 0 the centre lies on the edge.
\<close>

theorem C8_coordinate_click_at_box_centre:
  assumes "act_type action = Click"
      and "act_target action = Some t"
      and "truthy (el_selector t) = None"
      and "trySelectors p (selectorsFor t) w = (None, w1)"
  shows "\<exists>entry.
           executeAction ar clk (Some p) action w =
             (Inr entry,
              snd (pg_mouseClick p
                     (js_mul ar
                        (js_div ar
                           (js_add ar (bb_x (el_boundingBox t))
                                      (js_div ar (bb_width (el_boundingBox t)) (Finite 2)))
                           (Finite 100))
                        (Finite 800))
                     (js_mul ar
                        (js_div ar
                           (js_add ar (bb_y (el_boundingBox t))
                                      (js_div ar (bb_height (el_boundingBox t)) (Finite 2)))
                           (Finite 100))
                        (Finite 600))
                     w1))
           \<and> log_action entry = act_description action
           \<and> (log_status entry = Success \<longleftrightarrow>
                fst (pg_mouseClick p
                     (js_mul ar
                        (js_div ar
                           (js_add ar (bb_x (el_boundingBox t))
                                      (js_div ar (bb_width (el_boundingBox t)) (Finite 2)))
                           (Finite 100))
                        (Finite 800))
                     (js_mul ar
                        (js_div ar
                           (js_add ar (bb_y (el_boundingBox t))
                                      (js_div ar (bb_height (el_boundingBox t)) (Finite 2)))
                           (Finite 100))
                        (Finite 600))
                     w1) = Inr ())
           \<and> (log_status entry = Success \<or> log_status entry = Error)"
  using assms
  by (auto simp: executeAction_def performAction_def resolveSelector_def findElement_def
      Let_def truthy_def split: prod.splits sum.splits option.splits)

theorem C8_coordinate_click_at_box_centre_witness:
  "snd (executeAction exactArith tickClock (Some (scriptedPage nothingFound neverFails))
          (clickOn ''Pay'' [] 1 pointBox) []) =
     map Query (selectorsFor (the (act_target (clickOn ''Pay'' [] 1 pointBox)))) @
     [MouseClick (Finite 400) (Finite 300)]
   \<and> map_sum id log_status
        (fst (executeAction exactArith tickClock (Some (scriptedPage nothingFound neverFails))
          (clickOn ''Pay'' [] 1 pointBox) [])) = Inr Success
   \<and> snd (executeAction exactArith tickClock (Some (scriptedPage nothingFound alwaysFails))
          (clickOn ''Pay'' [] 1 flatBox) []) =
     map Query (selectorsFor (the (act_target (clickOn ''Pay'' [] 1 flatBox)))) @
     [MouseClick (Finite 200) (Finite 150)]
   \<and> map_sum id log_status
        (fst (executeAction exactArith tickClock (Some (scriptedPage nothingFound alwaysFails))
          (clickOn ''Pay'' [] 1 flatBox) [])) = Inr Error
   \<and> snd (executeAction exactArith tickClock (Some (scriptedPage nothingFound neverFails))
          (clickOn ''Pay'' [] 1 nanBox) []) =
     map Query (selectorsFor (the (act_target (clickOn ''Pay'' [] 1 nanBox)))) @
     [MouseClick NaN (Finite 300)]
   \<and> map_sum id log_status
        (fst (executeAction exactArith tickClock (Some (scriptedPage nothingFound neverFails))
          (clickOn ''Pay'' [] 1 nanBox) [])) = Inr Success"
  using C8_coordinate_click_at_box_centre
          [of "clickOn ''Pay'' [] 1 pointBox" "the (act_target (clickOn ''Pay'' [] 1 pointBox))"
              "scriptedPage nothingFound neverFails" "[]" _ exactArith tickClock,
           OF _ _ _ trySelectors_nothingFound]
        C8_coordinate_click_at_box_centre
          [of "clickOn ''Pay'' [] 1 flatBox" "the (act_target (clickOn ''Pay'' [] 1 flatBox))"
              "scriptedPage nothingFound alwaysFails" "[]" _ exactArith tickClock,
           OF _ _ _ trySelectors_nothingFound]
        C8_coordinate_click_at_box_centre
          [of "clickOn ''Pay'' [] 1 nanBox" "the (act_target (clickOn ''Pay'' [] 1 nanBox))"
              "scriptedPage nothingFound neverFails" "[]" _ exactArith tickClock,
           OF _ _ _ trySelectors_nothingFound]
  by (auto simp: clickOn_def truthy_def pointBox_def flatBox_def nanBox_def scriptedPage_def
        neverFails_def alwaysFails_def exactArith_def)

text \<open>
  Claim C6 at a failing input.  The page is closed during the run: the first click throws,
  which \<open>executeAction\<close> turns into an error entry, and then the recovery wait throws as
  well.  That wait is awaited outside any \<open>try\<close>, so \<open>executeWorkflow\<close> rejects: the second
  action is never attempted and no result is returned.
\<close>

theorem C6_failed_recovery_wait_ends_run:
  "executeWorkflow exactArith tickClock (Some (scriptedPage nothingFound alwaysFails)) None
     [clickOn ''Buy'' ''#buy'' 1 pointBox, clickOn ''Pay'' ''#pay'' 2 pointBox] [] =
   (Inl targetClosed, [ClickSelector ''#buy'', WaitForTimeout 500])"
  by (simp add: executeWorkflow_def executeAction_def performAction_def resolveSelector_def
      truthy_def scriptedPage_def tickClock_def clickOn_def alwaysFails_def Let_def)

text \<open>
  Claim C5, as stated, fails: the executors follow the array, not the \<open>order\<close> field.  On a
  plan that lists the action of order 2 before the action of order 1, \<open>executeWorkflow\<close>
  begins the step of order 2 first.
\<close>

theorem C5_array_order_not_order_field:
  "stepOrders
     (snd (executeWorkflow exactArith tickClock (Some (scriptedPage nothingFound neverFails))
             (Some recordStep)
             [clickOn ''Pay'' ''#pay'' 2 pointBox, clickOn ''Buy'' ''#buy'' 1 pointBox] []))
     = [2, 1]
   \<and> \<not> sorted_wrt (<)
      (stepOrders
         (snd (executeWorkflow exactArith tickClock (Some (scriptedPage nothingFound neverFails))
                 (Some recordStep)
                 [clickOn ''Pay'' ''#pay'' 2 pointBox, clickOn ''Buy'' ''#buy'' 1 pointBox] [])))"
  unfolding run_unsorted by simp

text \<open>
  Claim C5, amended.  The loop of \<open>handleExecute\<close> runs one iteration per action, by
  increasing array index, and leaves every action completed or failed.  If no action is
  marked executing at the start, then at the moment step \<open>k\<close> begins every earlier step
  has ended and no other step is executing (\<open>sequentialStep\<close>).  Where the \<open>order\<close> fields
  increase along the array the steps begin in increasing \<open>order\<close>; every classifier output
  is such a plan with no action executing.  Whenever \<open>executeWorkflow\<close> returns a result,
  its log holds one entry per action, in array order.  Its loop is sequential on every
  page: a run over \<open>xs @ ys\<close> is the run over \<open>xs\<close> followed, from the world and log that
  run left, by the run over \<open>ys\<close>.  On the recording browser double, if the recovery
  wait does not throw, the trace of a run is, in array order, one segment per action (the
  step callback with the action's index, the driver calls of that action, the recovery
  wait if the action failed), followed by the final screenshot: no step begins before
  the calls of the step before it are made, none is left out, none is repeated.  The
  segment of a click on a given selector is the callback, the click on that selector,
  and the recovery wait if the click throws.
\<close>

theorem C5_steps_sequential_in_array_order:
  "map fst (fst (handleExecute rand clock agentState)) = [0..<length (as_actions agentState)]
   \<and> list_all (\<lambda>a. terminal (act_status a))
        (as_actions (snd (handleExecute rand clock agentState)))
   \<and> (list_all (\<lambda>a. act_status a \<noteq> Executing) (as_actions agentState) \<longrightarrow>
        list_all (sequentialStep rand (length (as_actions agentState)))
          (fst (handleExecute rand clock agentState)))
   \<and> (sorted_wrt (<) (map act_order (as_actions agentState)) \<longrightarrow>
        sorted_wrt (<)
          (map (\<lambda>step. act_order (as_actions agentState ! fst step))
               (fst (handleExecute rand clock agentState))))
   \<and> list_all (\<lambda>a. act_status a \<noteq> Executing) (generateActionsFromGoal goal)
   \<and> sorted_wrt (<) (map act_order (generateActionsFromGoal goal))
   \<and> (\<forall>res w'. executeWorkflow ar clk page onStep actions w = (Inr res, w') \<longrightarrow>
        map log_action (er_logs res) = map act_description actions)
   \<and> workflowLoop ar clk page onStep i (xs @ ys) logs w =
        (case workflowLoop ar clk page onStep i xs logs w of
           (Inl e, w1) \<Rightarrow> (Inl e, w1)
         | (Inr logs1, w1) \<Rightarrow> workflowLoop ar clk page onStep (i + length xs) ys logs1 w1)
   \<and> (\<not> fails (WaitForTimeout 500) \<longrightarrow>
        snd (executeWorkflow ar tickClock (Some (scriptedPage found fails)) (Some recordStep)
               actions trace) =
          trace @ concat (map (stepSegment ar found fails) (enumerate 0 actions)) @
          [TakeScreenshot])
   \<and> (sel \<noteq> [] \<longrightarrow>
        stepSegment ar found fails (k, clickOn label sel ord box) =
          StepCallback k ord # ClickSelector sel #
          (if fails (ClickSelector sel) then [WaitForTimeout 500] else []))"
proof (intro conjI impI allI)
  show "map fst (fst (handleExecute rand clock agentState)) =
          [0..<length (as_actions agentState)]"
    by (rule handleExecute_indices)
  show "list_all (\<lambda>a. terminal (act_status a))
          (as_actions (snd (handleExecute rand clock agentState)))"
    by (rule handleExecute_final_terminal)
  show "list_all (sequentialStep rand (length (as_actions agentState)))
          (fst (handleExecute rand clock agentState))"
    if "list_all (\<lambda>a. act_status a \<noteq> Executing) (as_actions agentState)"
    using that by (rule handleExecute_sequential)
  show "sorted_wrt (<)
          (map (\<lambda>step. act_order (as_actions agentState ! fst step))
               (fst (handleExecute rand clock agentState)))"
    if "sorted_wrt (<) (map act_order (as_actions agentState))"
    using that by (simp only: handleExecute_order)
  show "list_all (\<lambda>a. act_status a \<noteq> Executing) (generateActionsFromGoal goal)"
    using classifier_plan_ready by blast
  show "sorted_wrt (<) (map act_order (generateActionsFromGoal goal))"
    using classifier_plan_ready by blast
  show "map log_action (er_logs res) = map act_description actions"
    if "executeWorkflow ar clk page onStep actions w = (Inr res, w')" for res w'
    using that by (rule executeWorkflow_result(1))
  show "workflowLoop ar clk page onStep i (xs @ ys) logs w =
        (case workflowLoop ar clk page onStep i xs logs w of
           (Inl e, w1) \<Rightarrow> (Inl e, w1)
         | (Inr logs1, w1) \<Rightarrow> workflowLoop ar clk page onStep (i + length xs) ys logs1 w1)"
    by (rule workflowLoop_append)
  show "snd (executeWorkflow ar tickClock (Some (scriptedPage found fails)) (Some recordStep)
               actions trace) =
          trace @ concat (map (stepSegment ar found fails) (enumerate 0 actions)) @
          [TakeScreenshot]"
    if "\<not> fails (WaitForTimeout 500)"
    using that by (rule executeWorkflow_scripted_trace)
  show "stepSegment ar found fails (k, clickOn label sel ord box) =
          StepCallback k ord # ClickSelector sel #
          (if fails (ClickSelector sel) then [WaitForTimeout 500] else [])"
    if "sel \<noteq> []"
    using that by (rule stepSegment_selector_click)
qed

theorem C5_steps_sequential_in_array_order_witness:
  "list_all (\<lambda>a. act_status a \<noteq> Executing) (as_actions plannedState)
   \<and> sorted_wrt (<) (map act_order (as_actions plannedState))
   \<and> map fst (fst (handleExecute secondFails stepClock plannedState)) = [0, 1, 2, 3]
   \<and> list_all (sequentialStep secondFails 4)
        (fst (handleExecute secondFails stepClock plannedState))
   \<and> sorted_wrt (<)
        (map (\<lambda>step. act_order (as_actions plannedState ! fst step))
             (fst (handleExecute secondFails stepClock plannedState)))
   \<and> map log_action
        (er_logs (projr (fst (executeWorkflow exactArith tickClock
           (Some (scriptedPage nothingFound (onlyFails (ClickSelector ''#buy''))))
           (Some recordStep)
           [clickOn ''Buy'' ''#buy'' 1 pointBox, clickOn ''Pay'' ''#pay'' 2 pointBox] []))))
      = [''Buy'', ''Pay'']
   \<and> \<not> onlyFails (ClickSelector ''#buy'') (WaitForTimeout 500)
   \<and> concat (map (stepSegment exactArith nothingFound (onlyFails (ClickSelector ''#buy'')))
        (enumerate 0
           [clickOn ''Buy'' ''#buy'' 1 pointBox, clickOn ''Pay'' ''#pay'' 2 pointBox])) @
      [TakeScreenshot]
      = [StepCallback 0 1, ClickSelector ''#buy'', WaitForTimeout 500,
         StepCallback 1 2, ClickSelector ''#pay'', TakeScreenshot]"
proof -
  have len: "length (as_actions plannedState) = 4"
    by (simp add: plannedState_def demoGoal_actions)
  have ready: "list_all (\<lambda>a. act_status a \<noteq> Executing) (as_actions plannedState)"
    by (simp add: plannedState_def demoGoal_actions)
  have sorted: "sorted_wrt (<) (map act_order (as_actions plannedState))"
    by (simp add: plannedState_def demoGoal_actions)
  have upt: "[0..<4] = [0, 1, 2, 3::nat]"
    by (simp add: upt_conv_Cons)
  have wait: "\<not> onlyFails (ClickSelector ''#buy'') (WaitForTimeout 500)"
    by (simp add: onlyFails_def)
  note inst = C5_steps_sequential_in_array_order
      [where rand = secondFails and clock = stepClock and agentState = plannedState
         and goal = demoGoal and ar = exactArith and clk = tickClock
         and page = "Some (scriptedPage nothingFound (onlyFails (ClickSelector ''#buy'')))"
         and onStep = "Some recordStep"
         and actions = "[clickOn ''Buy'' ''#buy'' 1 pointBox, clickOn ''Pay'' ''#pay'' 2 pointBox]"
         and w = "[]" and trace = "[]" and found = nothingFound
         and fails = "onlyFails (ClickSelector ''#buy'')"
         and sel = "''#buy''" and k = 0 and label = "''Buy''" and ord = 1 and box = pointBox]
  note indices = inst [THEN conjunct1]
  note steps = inst [THEN conjunct2, THEN conjunct2, THEN conjunct1, THEN mp, OF ready]
  note orders = inst [THEN conjunct2, THEN conjunct2, THEN conjunct2, THEN conjunct1,
      THEN mp, OF sorted]
  note labels = inst [THEN conjunct2, THEN conjunct2, THEN conjunct2, THEN conjunct2,
      THEN conjunct2, THEN conjunct2, THEN conjunct1]
  note calls = inst [THEN conjunct2, THEN conjunct2, THEN conjunct2, THEN conjunct2,
      THEN conjunct2, THEN conjunct2, THEN conjunct2, THEN conjunct2, THEN conjunct1,
      THEN mp, OF wait]
  have segs: "concat (map (stepSegment exactArith nothingFound (onlyFails (ClickSelector ''#buy'')))
        (enumerate 0
           [clickOn ''Buy'' ''#buy'' 1 pointBox, clickOn ''Pay'' ''#pay'' 2 pointBox])) @
      [TakeScreenshot]
      = [StepCallback 0 1, ClickSelector ''#buy'', WaitForTimeout 500,
         StepCallback 1 2, ClickSelector ''#pay'', TakeScreenshot]"
    using calls unfolding run_recovering by simp
  show ?thesis
    using indices steps orders labels ready sorted wait segs unfolding run_recovering len upt
    by (simp add: clickOn_def)
qed

end
